theory Spec2Isabelle
  imports Main "HOL-Library.Sublist"
begin

section \<open>The registrar chatbot: message intent router of backend/routes/chatbot.js\<close>

text \<open>
  A shallow embedding of \<^verbatim>\<open>src/backend/routes/chatbot.js\<close>. JavaScript strings are
  modelled as \<^typ>\<open>string\<close> (lists of 8-bit characters). The embedding is exact for ASCII
  text: case folding touches the letters A-Z only, white space is the ASCII white space
  (tab, line feed, vertical tab, form feed, carriage return, blank), and the emoji of the
  canned reply texts are carried as their UTF-8 bytes. The values read from the request
  body and the catalogs are taken at the types the code expects (strings, arrays of
  strings), as the static catalogs and the chat client supply them.
\<close>

subsection \<open>String primitives of the JavaScript runtime\<close>

definition toLowerChar :: "char \<Rightarrow> char" where
  "toLowerChar c =
     (case map_of (zip ''ABCDEFGHIJKLMNOPQRSTUVWXYZ'' ''abcdefghijklmnopqrstuvwxyz'') c of
        None \<Rightarrow> c | Some d \<Rightarrow> d)"

definition toUpperChar :: "char \<Rightarrow> char" where
  "toUpperChar c =
     (case map_of (zip ''abcdefghijklmnopqrstuvwxyz'' ''ABCDEFGHIJKLMNOPQRSTUVWXYZ'') c of
        None \<Rightarrow> c | Some d \<Rightarrow> d)"

definition toLowerCase :: "string \<Rightarrow> string" where
  "toLowerCase s = map toLowerChar s"

definition toUpperCase :: "string \<Rightarrow> string" where
  "toUpperCase s = map toUpperChar s"

definition isSpace :: "char \<Rightarrow> bool" where
  "isSpace c = (c \<in> set [CHR 0x09, CHR 0x0A, CHR 0x0B, CHR 0x0C, CHR 0x0D, CHR '' ''])"

definition isDigit :: "char \<Rightarrow> bool" where
  "isDigit c = (c \<in> set ''0123456789'')"

definition isAlpha :: "char \<Rightarrow> bool" where
  "isAlpha c = (c \<in> set ''abcdefghijklmnopqrstuvwxyzABCDEFGHIJKLMNOPQRSTUVWXYZ'')"

text \<open>\<^verbatim>\<open>String.prototype.trim\<close>: white space is dropped at both ends.\<close>

definition trim :: "string \<Rightarrow> string" where
  "trim s = rev (dropWhile isSpace (rev (dropWhile isSpace s)))"

text \<open>\<^verbatim>\<open>s.includes(k)\<close>: \<open>k\<close> occurs in \<open>s\<close> as a contiguous substring.\<close>

fun includesStr :: "string \<Rightarrow> string \<Rightarrow> bool" where
  "includesStr [] k = (k = [])"
| "includesStr (c # cs) k = (prefix k (c # cs) \<or> includesStr cs k)"

text \<open>\<^verbatim>\<open>s.substring(0, n)\<close>.\<close>

definition substring0 :: "string \<Rightarrow> nat \<Rightarrow> string" where
  "substring0 s n = take n s"

text \<open>
  \<^verbatim>\<open>s.split(/\s+/)\<close>: the pieces between maximal runs of white space; a run at either
  end leaves an empty piece there.
\<close>

function splitWs :: "string \<Rightarrow> string \<Rightarrow> string list" where
  "splitWs cur [] = [cur]"
| "splitWs cur (c # cs) =
     (if isSpace c then cur # splitWs [] (dropWhile isSpace cs)
      else splitWs (cur @ [c]) cs)"
  by pat_completeness auto
termination
  by (relation "measure (\<lambda>(cur, s). length s)")
     (auto simp: le_imp_less_Suc length_dropWhile_le)

definition digitVal :: "char \<Rightarrow> nat" where
  "digitVal c =
     (case map_of [(CHR ''0'', 0), (CHR ''1'', 1), (CHR ''2'', 2), (CHR ''3'', 3),
                   (CHR ''4'', 4), (CHR ''5'', 5), (CHR ''6'', 6), (CHR ''7'', 7),
                   (CHR ''8'', 8), (CHR ''9'', 9)] c of
        None \<Rightarrow> 0 | Some d \<Rightarrow> d)"

text \<open>
  \<^verbatim>\<open>parseInt\<close> on a run of decimal digits (the only argument the code passes: the
  capture of \<^verbatim>\<open>(\d+)\<close>). The value is exact; JavaScript rounds beyond \<open>2^53\<close>.
\<close>

definition parseInt :: "string \<Rightarrow> nat" where
  "parseInt s = foldl (\<lambda>n c. 10 * n + digitVal c) 0 s"

text \<open>A number interpolated into a template string: its decimal digits.\<close>

fun showNat :: "nat \<Rightarrow> string" where
  "showNat n =
     (if n < 10 then [''0123456789'' ! n]
      else showNat (n div 10) @ [''0123456789'' ! (n mod 10)])"

declare showNat.simps [simp del]

subsection \<open>The regular expressions, with JavaScript's backtracking order\<close>

text \<open>
  Every regular expression of the file carries the flag \<^verbatim>\<open>i\<close> and none carries
  \<^verbatim>\<open>g\<close> or \<^verbatim>\<open>m\<close>: a literal is compared case-insensitively, \<^verbatim>\<open>$\<close> is the end
  of the input, and \<^verbatim>\<open>match\<close> returns the leftmost match. The matcher is written in
  continuation-passing style, so that alternatives and repetitions are tried in the
  order of the ECMAScript semantics: an alternation left to right, a greedy repetition
  longest first, a lazy one shortest first. The state is the rest of the input and the
  captures closed so far.
\<close>

datatype re =
    Lit string
  | Cls "char \<Rightarrow> bool"
  | Star "char \<Rightarrow> bool"
  | LazyStar "char \<Rightarrow> bool"
  | Seq re re
  | Alt re re
  | Cap re
  | Eoi

type_synonym mstate = "string \<times> string list"

fun starG :: "(char \<Rightarrow> bool) \<Rightarrow> (mstate \<Rightarrow> mstate option) \<Rightarrow> mstate \<Rightarrow> mstate option" where
  "starG p k ([], caps) = k ([], caps)"
| "starG p k (c # cs, caps) =
     (if p c then
        (case starG p k (cs, caps) of
           Some r \<Rightarrow> Some r
         | None \<Rightarrow> k (c # cs, caps))
      else k (c # cs, caps))"

fun starL :: "(char \<Rightarrow> bool) \<Rightarrow> (mstate \<Rightarrow> mstate option) \<Rightarrow> mstate \<Rightarrow> mstate option" where
  "starL p k ([], caps) = k ([], caps)"
| "starL p k (c # cs, caps) =
     (case k (c # cs, caps) of
        Some r \<Rightarrow> Some r
      | None \<Rightarrow> if p c then starL p k (cs, caps) else None)"

fun matchRe :: "re \<Rightarrow> (mstate \<Rightarrow> mstate option) \<Rightarrow> mstate \<Rightarrow> mstate option" where
  "matchRe (Lit l) k (s, caps) =
     (if length l \<le> length s \<and> toLowerCase (take (length l) s) = toLowerCase l
      then k (drop (length l) s, caps) else None)"
| "matchRe (Cls p) k (s, caps) =
     (case s of [] \<Rightarrow> None | c # cs \<Rightarrow> if p c then k (cs, caps) else None)"
| "matchRe (Star p) k (s, caps) = starG p k (s, caps)"
| "matchRe (LazyStar p) k (s, caps) = starL p k (s, caps)"
| "matchRe (Seq a b) k (s, caps) = matchRe a (\<lambda>st. matchRe b k st) (s, caps)"
| "matchRe (Alt a b) k (s, caps) =
     (case matchRe a k (s, caps) of
        Some r \<Rightarrow> Some r
      | None \<Rightarrow> matchRe b k (s, caps))"
| "matchRe (Cap a) k (s, caps) =
     matchRe a (\<lambda>st. k (fst st, snd st @ [take (length s - length (fst st)) s])) (s, caps)"
| "matchRe Eoi k (s, caps) = (if s = [] then k (s, caps) else None)"

text \<open>
  \<^verbatim>\<open>s.match(r)\<close>: the match at the leftmost start position, as the matched text
  \<^verbatim>\<open>match[0]\<close> and the captures \<^verbatim>\<open>match[1], ...\<close>; \<open>None\<close> is JavaScript's null.
\<close>

fun match :: "string \<Rightarrow> re \<Rightarrow> (string \<times> string list) option" where
  "match [] r =
     (case matchRe r Some ([], []) of
        Some (rest, caps) \<Rightarrow> Some ([], caps)
      | None \<Rightarrow> None)"
| "match (c # cs) r =
     (case matchRe r Some (c # cs, []) of
        Some (rest, caps) \<Rightarrow> Some (take (length (c # cs) - length rest) (c # cs), caps)
      | None \<Rightarrow> match cs r)"

definition plusG :: "(char \<Rightarrow> bool) \<Rightarrow> re" where
  "plusG p = Seq (Cls p) (Star p)"

definition plusL :: "(char \<Rightarrow> bool) \<Rightarrow> re" where
  "plusL p = Seq (Cls p) (LazyStar p)"

text \<open>
  \<^verbatim>\<open>r.test(s)\<close> for a pattern that starts with \<^verbatim>\<open>^\<close> (no flag \<^verbatim>\<open>m\<close>): only the
  start position 0 can match.
\<close>

definition testAtStart :: "re \<Rightarrow> string \<Rightarrow> bool" where
  "testAtStart r s = (matchRe r Some (s, []) \<noteq> None)"

definition anyChar :: "char \<Rightarrow> bool" where
  \<comment> \<open>\<^verbatim>\<open>.\<close>: any character but a line terminator\<close>
  "anyChar c = (c \<noteq> CHR 0x0A \<and> c \<noteq> CHR 0x0D)"

definition ticketChar :: "char \<Rightarrow> bool" where
  \<comment> \<open>\<^verbatim>\<open>[\dA-Z-]\<close> and \<^verbatim>\<open>[A-Z0-9-]\<close> under the flag \<^verbatim>\<open>i\<close>\<close>
  "ticketChar c = (isDigit c \<or> isAlpha c \<or> c = CHR ''-'')"

definition alnumChar :: "char \<Rightarrow> bool" where
  \<comment> \<open>\<^verbatim>\<open>[A-Z0-9]\<close> under the flag \<^verbatim>\<open>i\<close>\<close>
  "alnumChar c = (isAlpha c \<or> isDigit c)"

definition sepChar :: "char \<Rightarrow> bool" where
  \<comment> \<open>\<^verbatim>\<open>[:\s]\<close>\<close>
  "sepChar c = (c = CHR '':'' \<or> isSpace c)"

definition nameChar :: "char \<Rightarrow> bool" where
  \<comment> \<open>\<^verbatim>\<open>[A-Za-z\s]\<close>\<close>
  "nameChar c = (isAlpha c \<or> isSpace c)"

subsection \<open>The catalogs and the keyword tables\<close>

record faq =
  question :: string
  faq_keywords :: "string list"
  answer :: string

text \<open>
  A department of \<^verbatim>\<open>departments.json\<close>. \<open>services = None\<close> stands for an entry whose
  \<^verbatim>\<open>services\<close> is missing or not an array; \<open>contact\<close> and \<open>phone\<close> are optional.
\<close>

record department =
  name :: string
  location :: string
  hours :: string
  contact :: "string option"
  phone :: "string option"
  services :: "string list option"

text \<open>\<^verbatim>\<open>/^(hi|hello|hey|greetings|good morning|good afternoon|good evening|good day)/i\<close>
  and \<^verbatim>\<open>/^(hi there|hello there|hey there)/i\<close>.\<close>

definition greetingPatterns :: "re list" where
  "greetingPatterns =
     [Cap (Alt (Lit ''hi'') (Alt (Lit ''hello'') (Alt (Lit ''hey'') (Alt (Lit ''greetings'')
        (Alt (Lit ''good morning'') (Alt (Lit ''good afternoon'')
        (Alt (Lit ''good evening'') (Lit ''good day'')))))))),
      Cap (Alt (Lit ''hi there'') (Alt (Lit ''hello there'') (Lit ''hey there'')))]"

text \<open>\<^verbatim>\<open>ticketKeywords\<close>, in the order of its declaration (the order \<^verbatim>\<open>Object.entries\<close>
  yields).\<close>

definition ticketKeywords :: "(string \<times> string list) list" where
  "ticketKeywords =
     [(''OTR Request'', [''otr'', ''transcript'', ''official transcript'', ''records'', ''tor'']),
      (''Subject Enrollment'', [''enroll'', ''enrollment'', ''add subject'', ''register subject'',
         ''drop subject'', ''withdraw subject'']),
      (''Grade Inquiry'', [''grade'', ''grades'', ''check grade'', ''view grade'',
         ''question about grade'']),
      (''Document Request'', [''document'', ''certificate'', ''diploma'', ''coe'',
         ''certificate of enrollment'']),
      (''Enrollment'', [''enrollment'', ''enroll'', ''change course'', ''shift course'']),
      (''Scholarship'', [''scholarship'', ''financial aid'', ''grant'']),
      (''Financial Aid'', [''financial aid'', ''assistance'', ''help with payment'']),
      (''Tuition Payment'', [''tuition'', ''payment'', ''pay'', ''fee'']),
      (''Academic Complaint'', [''complaint'', ''grievance'', ''issue'', ''problem'']),
      (''General Inquiry'', [''inquiry'', ''question'', ''help'', ''information''])]"

subsection \<open>The classifiers\<close>

definition detectGreeting :: "string \<Rightarrow> bool" where
  "detectGreeting message =
     (let lowerMessage = trim (toLowerCase message)
      in list_ex (\<lambda>pattern. testAtStart pattern lowerMessage) greetingPatterns)"

definition getGreetingResponse :: "nat \<Rightarrow> string" where
  \<open>getGreetingResponse hour =
     (let greeting = (if hour < 12 then ''Good morning''
                      else if hour < 18 then ''Good afternoon''
                      else ''Good evening'')
      in greeting @ ''! I'm the Registrar's Office AI assistant. How can I help you today? I can assist with:\<newline>\<newline>''
         @ [CHR 0xE2, CHR 0x80, CHR 0xA2] @ '' Requesting documents (OTR, certificates, etc.)\<newline>''
         @ [CHR 0xE2, CHR 0x80, CHR 0xA2] @ '' Subject enrollment\<newline>''
         @ [CHR 0xE2, CHR 0x80, CHR 0xA2] @ '' Grade inquiries\<newline>''
         @ [CHR 0xE2, CHR 0x80, CHR 0xA2] @ '' General questions\<newline>\<newline>''
         @ ''Just ask me anything, and I'll help you create a ticket if needed!'')\<close>

fun matchFAQ_loop :: "faq list \<Rightarrow> string \<Rightarrow> string option" where
  "matchFAQ_loop [] lowerMessage = None"
| "matchFAQ_loop (faq # rest) lowerMessage =
     (let keywordMatch =
            list_ex (\<lambda>keyword. includesStr lowerMessage (toLowerCase keyword)) (faq_keywords faq);
          questionWords = splitWs [] (toLowerCase (question faq));
          questionMatch =
            list_ex (\<lambda>word. includesStr lowerMessage word)
              (filter (\<lambda>word. length word > 3) questionWords)
      in if keywordMatch \<or> questionMatch then Some (answer faq)
         else matchFAQ_loop rest lowerMessage)"

definition matchFAQ :: "faq list \<Rightarrow> string \<Rightarrow> string option" where
  "matchFAQ faqs message = matchFAQ_loop faqs (toLowerCase message)"

definition locationKeywords :: "string list" where
  "locationKeywords =
     [''where'', ''location'', ''find'', ''get'', ''obtain'', ''available'', ''can i get'',
      ''how to get'']"

definition serviceMatch :: "string \<Rightarrow> department \<Rightarrow> bool" where
  "serviceMatch lowerMessage dept =
     (case services dept of
        None \<Rightarrow> False
      | Some svcs \<Rightarrow> list_ex (\<lambda>service. includesStr lowerMessage (toLowerCase service)) svcs)"

fun findDepartment_loop :: "department list \<Rightarrow> string \<Rightarrow> department option" where
  "findDepartment_loop [] lowerMessage = None"
| "findDepartment_loop (dept # rest) lowerMessage =
     (if serviceMatch lowerMessage dept then Some dept
      else findDepartment_loop rest lowerMessage)"

definition findDepartmentByService :: "department list \<Rightarrow> string \<Rightarrow> department option" where
  "findDepartmentByService departments message =
     (if length departments = 0 then None
      else
        let lowerMessage = toLowerCase message;
            isLocationInquiry =
              list_ex (\<lambda>keyword. includesStr lowerMessage keyword) locationKeywords
        in if \<not> isLocationInquiry then None
           else findDepartment_loop departments lowerMessage)"

definition formatDepartmentInfo :: "department \<Rightarrow> string" where
  \<open>formatDepartmentInfo department =
     ''You can find that at the **'' @ name department @ ''**.\<newline>\<newline>''
     @ [CHR 0xF0, CHR 0x9F, CHR 0x93, CHR 0x8D] @ '' **Location:** '' @ location department
     @ ''\<newline>''
     @ [CHR 0xF0, CHR 0x9F, CHR 0x95, CHR 0x90] @ '' **Hours:** '' @ hours department
     @ ''\<newline>''
     @ (case contact department of
          None \<Rightarrow> []
        | Some c \<Rightarrow> if c = [] then []
            else [CHR 0xF0, CHR 0x9F, CHR 0x93, CHR 0xA7] @ '' **Email:** '' @ c @ ''\<newline>'')
     @ (case phone department of
          None \<Rightarrow> []
        | Some p \<Rightarrow> if p = [] then []
            else [CHR 0xF0, CHR 0x9F, CHR 0x93, CHR 0x9E] @ '' **Phone:** '' @ p @ ''\<newline>'')
     @ ''\<newline>Would you like me to create a ticket for this inquiry, or do you need more information?''\<close>

fun detectTicketCategory_loop :: "(string \<times> string list) list \<Rightarrow> string \<Rightarrow> string" where
  "detectTicketCategory_loop [] lowerMessage = ''General Inquiry''"
| "detectTicketCategory_loop ((category, kws) # rest) lowerMessage =
     (let matchCount =
            length (filter (\<lambda>keyword. includesStr lowerMessage (toLowerCase keyword)) kws)
      in if matchCount > 0 then category
         else detectTicketCategory_loop rest lowerMessage)"

definition detectTicketCategory :: "string \<Rightarrow> string" where
  "detectTicketCategory message = detectTicketCategory_loop ticketKeywords (toLowerCase message)"

subsection \<open>Ticket field extraction\<close>

record request_details =
  numberOfCopies :: "nat option"
  purpose :: "string option"
  subjectCode :: "string option"
  subjectName :: "string option"

record ticket_info =
  title :: string
  description :: string
  category :: string
  priority :: string
  requestDetails :: request_details

definition copiesPattern :: re where
  \<comment> \<open>\<^verbatim>\<open>/(\d+)\s*(copy|copies)/i\<close>\<close>
  "copiesPattern =
     Seq (Cap (plusG isDigit)) (Seq (Star isSpace) (Cap (Alt (Lit ''copy'') (Lit ''copies''))))"

definition purposePattern :: re where
  \<comment> \<open>\<^verbatim>\<open>/purpose[:\s]+(.+?)(?:\.|$)/i\<close>\<close>
  "purposePattern =
     Seq (Lit ''purpose'') (Seq (plusG sepChar) (Seq (Cap (plusL anyChar)) (Alt (Lit ''.'') Eoi)))"

definition subjectCodePattern :: re where
  \<comment> \<open>\<^verbatim>\<open>/(?:subject\s+code|code)[:\s]+([A-Z0-9]+)/i\<close>\<close>
  "subjectCodePattern =
     Seq (Alt (Seq (Lit ''subject'') (Seq (plusG isSpace) (Lit ''code''))) (Lit ''code''))
       (Seq (plusG sepChar) (Cap (plusG alnumChar)))"

definition subjectNamePattern :: re where
  \<comment> \<open>\<^verbatim>\<open>/(?:subject|course)[:\s]+([A-Za-z\s]+?)(?:\.|$)/i\<close>\<close>
  "subjectNamePattern =
     Seq (Alt (Lit ''subject'') (Lit ''course''))
       (Seq (plusG sepChar) (Seq (Cap (plusL nameChar)) (Alt (Lit ''.'') Eoi)))"

text \<open>The first capture of a match, \<^verbatim>\<open>m[1]\<close>, when there is a match.\<close>

definition capture1 :: "(string \<times> string list) option \<Rightarrow> string option" where
  "capture1 m = (case m of Some (whole, c1 # rest) \<Rightarrow> Some c1 | _ \<Rightarrow> None)"

definition extractTicketInfo :: "string \<Rightarrow> string \<Rightarrow> ticket_info" where
  "extractTicketInfo message cat =
     (let lowerMessage = toLowerCase message;
          prio =
            (if includesStr lowerMessage ''urgent'' \<or> includesStr lowerMessage ''asap''
                \<or> includesStr lowerMessage ''immediately'' then ''Urgent''
             else if includesStr lowerMessage ''important'' \<or> includesStr lowerMessage ''soon''
             then ''High''
             else ''Normal'');
          otr = (cat = ''OTR Request'');
          enr = (cat = ''Subject Enrollment'')
      in \<lparr> title = substring0 message 100,
           description = message,
           category = cat,
           priority = prio,
           requestDetails =
             \<lparr> numberOfCopies =
                 (if otr then map_option parseInt (capture1 (match message copiesPattern))
                  else None),
               purpose =
                 (if otr then map_option trim (capture1 (match message purposePattern))
                  else None),
               subjectCode =
                 (if enr then map_option toUpperCase (capture1 (match message subjectCodePattern))
                  else None),
               subjectName =
                 (if enr then map_option trim (capture1 (match message subjectNamePattern))
                  else None) \<rparr> \<rparr>)"

subsection \<open>The ticket store\<close>

text \<open>
  \<open>ticket_data\<close> is the object \<^verbatim>\<open>createTicket\<close> hands to \<^verbatim>\<open>new Ticket(...)\<close>; a
  \<open>ticket\<close> is a document of the collection. An assignee and a resolution are read with
  JavaScript's optional fields.
\<close>

record ticket_data = ticket_info +
  createdBy :: string
  status :: string

record assignee =
  firstName :: "string option"
  username :: "string option"

record resolution_notes =
  rejectionReason :: "string option"
  resolutionNotes :: "string option"

record ticket = ticket_data +
  ticketId :: string
  ticketNumber :: string
  createdAt :: nat
  assignedTo :: "assignee option"
  resolution :: "resolution_notes option"

text \<open>
  What \<^verbatim>\<open>ticket.save()\<close> does is decided by the Mongoose model \<^verbatim>\<open>models/Ticket\<close> and
  the database: it throws (a validation or a storage error), or it stores the document
  under a generated \<^verbatim>\<open>_id\<close>, ticket number and creation time. The outcome is a parameter
  of the environment, as are the failures of the two reads (\<^verbatim>\<open>populate\<close> after a save,
  \<^verbatim>\<open>Ticket.find\<close>), the server clock, the completion service and the runtime's date
  formatting. A saved document keeps the fields it was given.
\<close>

datatype save_outcome = SaveError | Saved string string nat

record env =
  hour :: nat
  save :: "ticket_data \<Rightarrow> save_outcome"
  populateFails :: bool
  findFails :: bool
  openaiApiKey :: "string option"
  completion :: "string \<Rightarrow> string \<Rightarrow> string option"
  toLocaleDateString :: "nat \<Rightarrow> bool \<Rightarrow> string"

text \<open>The module state: the two catalogs loaded at start-up, and the tickets collection in
  insertion order.\<close>

record world =
  faqData :: "faq list"
  departmentData :: "department list"
  ticketStore :: "ticket list"

definition truthy :: "string option \<Rightarrow> bool" where
  \<comment> \<open>a string or \<^verbatim>\<open>null\<close>/\<^verbatim>\<open>undefined\<close> in a condition: the empty string is false\<close>
  "truthy x = (case x of None \<Rightarrow> False | Some s \<Rightarrow> s \<noteq> [])"

definition orElse :: "string \<Rightarrow> string \<Rightarrow> string" where
  \<comment> \<open>\<^verbatim>\<open>a || b\<close> on strings\<close>
  "orElse a b = (if a \<noteq> [] then a else b)"

text \<open>
  \<^verbatim>\<open>createTicket\<close>: the stored document when everything succeeds, \<open>None\<close> when the
  \<^verbatim>\<open>try\<close> block throws, and the collection afterwards.
\<close>

definition createTicket ::
  "env \<Rightarrow> ticket list \<Rightarrow> ticket_info \<Rightarrow> string \<Rightarrow> ticket option \<times> ticket list" where
  "createTicket e store ticketInfo userId =
     (let title0 = substring0 (orElse (title ticketInfo) ''Chatbot Request'') 200;
          description0 =
            substring0 (orElse (description ticketInfo)
              (orElse (title ticketInfo) ''Request created via chatbot'')) 5000;
          title1 = (if length title0 < 5 then ''Request from chatbot: '' @ title0 else title0);
          description1 =
            (if length description0 < 10 then description0 @ '' (Created via chatbot)''
             else description0);
          ticketData =
            \<lparr> title = title1,
              description = description1,
              category = orElse (category ticketInfo) ''General Inquiry'',
              priority = orElse (priority ticketInfo) ''Normal'',
              requestDetails = requestDetails ticketInfo,
              createdBy = userId,
              status = ''Pending'' \<rparr>
      in case save e ticketData of
           SaveError \<Rightarrow> (None, store)
         | Saved newId newNumber now \<Rightarrow>
             (let ticket =
                    \<lparr> title = title ticketData,
                      description = description ticketData,
                      category = category ticketData,
                      priority = priority ticketData,
                      requestDetails = requestDetails ticketData,
                      createdBy = createdBy ticketData,
                      status = status ticketData,
                      ticketId = newId,
                      ticketNumber = newNumber,
                      createdAt = now,
                      assignedTo = None,
                      resolution = None \<rparr>
              in (if populateFails e then None else Some ticket, store @ [ticket])))"

subsection \<open>Ticket status inquiries\<close>

definition statusKeywords :: "string list" where
  "statusKeywords =
     [''ticket status'', ''check ticket'', ''my tickets'', ''ticket status'',
      ''status of'', ''ticket number'', ''view ticket'', ''show ticket'',
      ''what is my ticket'', ''where is my ticket'', ''ticket update'',
      ''ticket progress'', ''ticket information'', ''my ticket info'']"

definition detectTicketStatusInquiry :: "string \<Rightarrow> bool" where
  "detectTicketStatusInquiry message =
     (let lowerMessage = toLowerCase message
      in list_ex (\<lambda>keyword. includesStr lowerMessage keyword) statusKeywords)"

definition ticketPattern :: re where
  \<comment> \<open>\<^verbatim>\<open>/TICKET-[\dA-Z-]+/i\<close>\<close>
  "ticketPattern = Seq (Lit ''TICKET-'') (plusG ticketChar)"

definition numberPattern :: re where
  \<comment> \<open>\<^verbatim>\<open>/(?:ticket|#)\s*([A-Z0-9-]+)/i\<close>\<close>
  "numberPattern =
     Seq (Alt (Lit ''ticket'') (Lit ''#'')) (Seq (Star isSpace) (Cap (plusG ticketChar)))"

definition extractTicketNumber :: "string \<Rightarrow> string option" where
  "extractTicketNumber message =
     (case match message ticketPattern of
        Some (whole, caps) \<Rightarrow> Some (toUpperCase whole)
      | None \<Rightarrow> map_option toUpperCase (capture1 (match message numberPattern)))"

text \<open>
  \<^verbatim>\<open>getUserTickets\<close>: the caller's tickets, with the given number when one is given,
  newest first, at most 10; \<open>None\<close> when the query throws. Tickets created at the same
  instant keep their insertion order.
\<close>

definition getUserTickets ::
  "env \<Rightarrow> ticket list \<Rightarrow> string \<Rightarrow> string option \<Rightarrow> ticket list option" where
  "getUserTickets e store userId number =
     (if findFails e then None
      else Some (take 10 (sort_key (\<lambda>t. - int (createdAt t))
             (filter (\<lambda>t. createdBy t = userId \<and>
                          (if truthy number then Some (ticketNumber t) = number else True))
                store))))"

definition statusEmoji :: "string \<Rightarrow> string" where
  \<comment> \<open>\<^verbatim>\<open>statusEmoji[ticket.status] || (clipboard)\<close>, the emoji as UTF-8 bytes\<close>
  "statusEmoji st =
     (case map_of
        [(''Pending'', [CHR 0xE2, CHR 0x8F, CHR 0xB3]),
         (''In Review'', [CHR 0xF0, CHR 0x9F, CHR 0x91, CHR 0x80]),
         (''Approved'', [CHR 0xE2, CHR 0x9C, CHR 0x85]),
         (''Rejected'', [CHR 0xE2, CHR 0x9D, CHR 0x8C]),
         (''Completed'', [CHR 0xE2, CHR 0x9C, CHR 0x94, CHR 0xEF, CHR 0xB8, CHR 0x8F]),
         (''Cancelled'', [CHR 0xF0, CHR 0x9F, CHR 0x9A, CHR 0xAB]),
         (''On Hold'', [CHR 0xE2, CHR 0x8F, CHR 0xB8, CHR 0xEF, CHR 0xB8, CHR 0x8F])] st of
        Some e \<Rightarrow> e
      | None \<Rightarrow> [CHR 0xF0, CHR 0x9F, CHR 0x93, CHR 0x8B])"

definition priorityEmoji :: "string \<Rightarrow> string" where
  "priorityEmoji p =
     (case map_of
        [(''Low'', [CHR 0xF0, CHR 0x9F, CHR 0x9F, CHR 0xA2]),
         (''Normal'', [CHR 0xF0, CHR 0x9F, CHR 0x9F, CHR 0xA1]),
         (''High'', [CHR 0xF0, CHR 0x9F, CHR 0x9F, CHR 0xA0]),
         (''Urgent'', [CHR 0xF0, CHR 0x9F, CHR 0x94, CHR 0xB4])] p of
        Some e \<Rightarrow> e
      | None \<Rightarrow> [CHR 0xF0, CHR 0x9F, CHR 0x9F, CHR 0xA1])"

definition showOpt :: "string option \<Rightarrow> string" where
  \<comment> \<open>an optional field interpolated into a template string\<close>
  "showOpt x = (case x of None \<Rightarrow> ''undefined'' | Some s \<Rightarrow> s)"

definition formatSingleTicket :: "env \<Rightarrow> ticket \<Rightarrow> string" where
  \<open>formatSingleTicket e ticket =
     ''Here's the status of your ticket:\<newline>\<newline>''
     @ statusEmoji (status ticket) @ '' **Ticket #'' @ ticketNumber ticket @ ''**\<newline>''
     @ [CHR 0xF0, CHR 0x9F, CHR 0x93, CHR 0x9D] @ '' Title: '' @ title ticket @ ''\<newline>''
     @ [CHR 0xF0, CHR 0x9F, CHR 0x93, CHR 0x8A] @ '' Status: '' @ status ticket @ ''\<newline>''
     @ priorityEmoji (priority ticket) @ '' Priority: '' @ priority ticket @ ''\<newline>''
     @ [CHR 0xF0, CHR 0x9F, CHR 0x93, CHR 0x81] @ '' Category: '' @ category ticket @ ''\<newline>''
     @ [CHR 0xF0, CHR 0x9F, CHR 0x93, CHR 0x85] @ '' Created: ''
     @ toLocaleDateString e (createdAt ticket) True @ ''\<newline>''
     @ (case assignedTo ticket of
          None \<Rightarrow> []
        | Some a \<Rightarrow>
            [CHR 0xF0, CHR 0x9F, CHR 0x91, CHR 0xA4] @ '' Assigned to: ''
            @ (if truthy (firstName a) then showOpt (firstName a) else showOpt (username a))
            @ ''\<newline>'')
     @ (if status ticket = ''Rejected''
           \<and> (case resolution ticket of None \<Rightarrow> False | Some r \<Rightarrow> truthy (rejectionReason r))
        then ''\<newline>'' @ [CHR 0xE2, CHR 0x9D, CHR 0x8C] @ '' Rejection Reason: ''
             @ (case resolution ticket of None \<Rightarrow> [] | Some r \<Rightarrow> showOpt (rejectionReason r))
             @ ''\<newline>''
        else [])
     @ (if status ticket = ''Completed''
           \<and> (case resolution ticket of None \<Rightarrow> False | Some r \<Rightarrow> truthy (resolutionNotes r))
        then ''\<newline>'' @ [CHR 0xE2, CHR 0x9C, CHR 0x85] @ '' Resolution: ''
             @ (case resolution ticket of None \<Rightarrow> [] | Some r \<Rightarrow> showOpt (resolutionNotes r))
             @ ''\<newline>''
        else [])
     @ ''\<newline>You can view full details in the Tickets section.''\<close>

text \<open>The body of \<^verbatim>\<open>tickets.forEach((ticket, index) => ...)\<close> of the list view.\<close>

definition summaryEntry :: "env \<Rightarrow> nat \<Rightarrow> ticket \<Rightarrow> string" where
  \<open>summaryEntry e index ticket =
     showNat (index + 1) @ ''. '' @ statusEmoji (status ticket) @ '' **#'' @ ticketNumber ticket
     @ ''** - '' @ title ticket @ ''\<newline>''
     @ ''   Status: '' @ status ticket @ '' | Priority: '' @ priority ticket @ '' | ''
     @ toLocaleDateString e (createdAt ticket) False @ ''\<newline>\<newline>''\<close>

fun summaryEntries :: "env \<Rightarrow> nat \<Rightarrow> ticket list \<Rightarrow> string" where
  "summaryEntries e index [] = []"
| "summaryEntries e index (ticket # rest) =
     summaryEntry e index ticket @ summaryEntries e (index + 1) rest"

definition truncationNote :: string where
  \<open>truncationNote =
     ''\<newline>(Showing most recent 10 tickets. View all tickets in the Tickets section.)''\<close>

definition followUpPrompt :: string where
  \<open>followUpPrompt =
     ''\<newline>Would you like to know more about a specific ticket? Just mention the ticket number!''\<close>

definition formatTicketStatus :: "env \<Rightarrow> ticket list \<Rightarrow> bool \<Rightarrow> string" where
  \<open>formatTicketStatus e tickets isSpecificTicket =
     (if length tickets = 0
      then ''I couldn't find any tickets in your account. Would you like to create a new ticket?''
      else if isSpecificTicket \<and> length tickets = 1
      then (case tickets of ticket # rest \<Rightarrow> formatSingleTicket e ticket | [] \<Rightarrow> [])
      else ''I found '' @ showNat (length tickets) @ '' ticket''
           @ (if length tickets > 1 then ''s'' else []) @ '' in your account:\<newline>\<newline>''
           @ summaryEntries e 0 tickets
           @ (if length tickets \<ge> 10 then truncationNote else [])
           @ followUpPrompt)\<close>

subsection \<open>The completion fallback\<close>

fun joinStr :: "string \<Rightarrow> string list \<Rightarrow> string" where
  "joinStr sep [] = []"
| "joinStr sep [x] = x"
| "joinStr sep (x # y # ys) = x @ sep @ joinStr sep (y # ys)"

definition buildDepartmentContext :: "department list \<Rightarrow> string" where
  \<open>buildDepartmentContext departments =
     (if length departments = 0 then []
      else ''\<newline>\<newline>Available Departments and Services:\<newline>''
           @ concat (map (\<lambda>dept.
               (case services dept of
                  None \<Rightarrow> []
                | Some svcs \<Rightarrow>
                    ''- '' @ name dept @ '': '' @ location dept @ ''. Services: ''
                    @ joinStr '', '' svcs @ ''. Hours: '' @ hours dept @ ''.\<newline>''))
               departments))\<close>

definition systemPrompt :: "department list \<Rightarrow> string" where
  \<open>systemPrompt departments =
     ''You are a helpful AI assistant for a university registrar's office. Help students with questions about enrollment, transcripts, grades, and other university services. Be friendly, professional, and concise. If a student needs to create a ticket, guide them on how to do so.''
     @ buildDepartmentContext departments
     @ ''\<newline>\<newline>When students ask about where to find services or departments, provide specific location information from the department list above.''\<close>

text \<open>
  \<^verbatim>\<open>getGPTResponse\<close>: \<open>completion e prompt message\<close> is the content of the first choice
  the service returns, \<open>None\<close> when the call throws or the reply has no such content.
\<close>

definition getGPTResponse :: "env \<Rightarrow> department list \<Rightarrow> string \<Rightarrow> string" where
  \<open>getGPTResponse e departments message =
     (if \<not> truthy (openaiApiKey e)
      then ''I'm here to help with registrar-related inquiries. Could you please provide more details about your question? You can also create a ticket for assistance.''
      else (case completion e (systemPrompt departments) message of
              Some content \<Rightarrow> trim content
            | None \<Rightarrow> ''I'm having trouble processing that right now. Please try rephrasing your question or create a ticket for assistance.''))\<close>

subsection \<open>The route handler \<^verbatim>\<open>POST /message\<close>\<close>

record conversation_context =
  originalMessage :: "string option"
  contextCategory :: "string option"

text \<open>
  A request as it reaches the handler behind \<^verbatim>\<open>authenticate\<close>: the body's message and
  echoed context, the authenticated user's id, and the verdict of the validator on the
  optional body field \<^verbatim>\<open>userId\<close> (\<open>True\<close> when the field is absent or a Mongo id).
\<close>

record request =
  body_message :: string
  body_userIdValid :: bool
  body_conversationContext :: "conversation_context option"
  user_id :: string

record ticket_ref =
  ref_id :: string
  ref_ticketNumber :: string
  ref_title :: string

record ticket_summary =
  sum_id :: string
  sum_ticketNumber :: string
  sum_title :: string
  sum_status :: string
  sum_priority :: string
  sum_category :: string

record response =
  responseText :: string
  action :: "string option"
  ticket :: "ticket_ref option"
  tickets :: "ticket_summary list option"
  conversationContext :: "conversation_context option"

record http_response =
  httpStatus :: nat
  success :: bool
  data :: "response option"
  errorMessage :: "string option"

definition initialResponse :: response where
  "initialResponse =
     \<lparr> responseText = [], action = None, ticket = None, tickets = None,
       conversationContext = None \<rparr>"

definition jsonOk :: "response \<Rightarrow> http_response" where
  \<comment> \<open>\<^verbatim>\<open>res.json({ success: true, data: response })\<close>\<close>
  "jsonOk r = \<lparr> httpStatus = 200, success = True, data = Some r, errorMessage = None \<rparr>"

definition validationFailed :: http_response where
  \<comment> \<open>\<^verbatim>\<open>res.status(400).json({ success: false, message: 'Validation failed', ... })\<close>\<close>
  "validationFailed =
     \<lparr> httpStatus = 400, success = False, data = None,
       errorMessage = Some ''Validation failed'' \<rparr>"

definition isTicketConfirmation :: "string \<Rightarrow> bool" where
  "isTicketConfirmation lowerMessage =
     (lowerMessage = ''yes'' \<or> lowerMessage = ''y'' \<or> lowerMessage = ''create ticket''
      \<or> lowerMessage = ''create'' \<or> includesStr lowerMessage ''yes, create''
      \<or> includesStr lowerMessage ''yes create'' \<or> lowerMessage = ''ok''
      \<or> lowerMessage = ''okay'' \<or> lowerMessage = ''sure'')"

definition createdText :: "ticket \<Rightarrow> string" where
  \<open>createdText t =
     ''Great! I've created a ticket (#'' @ ticketNumber t @ '') for your request: "''
     @ title t
     @ ''".\<newline>\<newline>Our staff will review it and respond within 1-2 business days. You can track your ticket status in the Tickets section.\<newline>\<newline>Is there anything else I can help you with?''\<close>

definition creationFailedText :: string where
  \<open>creationFailedText =
     ''I'm having trouble creating the ticket right now. Please try creating a ticket manually through the Tickets section, or let me know if you'd like to try again.''\<close>

text \<open>The \<^verbatim>\<open>try { createTicket } catch\<close> block, which both confirmation branches
  contain word for word.\<close>

definition confirmationReply ::
  "env \<Rightarrow> world \<Rightarrow> ticket_info \<Rightarrow> string \<Rightarrow> response \<times> world" where
  "confirmationReply e w ticketInfo userId =
     (case createTicket e (ticketStore w) ticketInfo userId of
        (Some t, store') \<Rightarrow>
          (initialResponse
             \<lparr> responseText := createdText t,
               action := Some ''ticket_created'',
               ticket := Some \<lparr> ref_id = ticketId t, ref_ticketNumber = ticketNumber t,
                                ref_title = title t \<rparr> \<rparr>,
           w \<lparr> ticketStore := store' \<rparr>)
      | (None, store') \<Rightarrow>
          (initialResponse \<lparr> responseText := creationFailedText \<rparr>,
           w \<lparr> ticketStore := store' \<rparr>))"

definition departmentIndicators :: "string list" where
  "departmentIndicators =
     [''request'', ''need'', ''want'', ''apply'', ''create'', ''submit'', ''help with'',
      ''inquiry'']"

definition faqIndicators :: "string list" where
  "faqIndicators =
     [''request'', ''need'', ''want'', ''apply'', ''create'', ''submit'', ''help with'']"

definition ticketIndicators :: "string list" where
  "ticketIndicators =
     [''request'', ''need'', ''want'', ''apply'', ''create'', ''submit'',
      ''help with'', ''assistance'', ''issue'', ''problem'']"

definition departmentReply :: "department \<Rightarrow> string \<Rightarrow> string \<Rightarrow> response" where
  \<open>departmentReply department message lowerMessage =
     (let r = initialResponse \<lparr> responseText := formatDepartmentInfo department,
                                 action := Some ''department_info'' \<rparr>;
          mightNeedTicket =
            list_ex (\<lambda>indicator. includesStr lowerMessage indicator) departmentIndicators
      in if mightNeedTicket
         then r \<lparr> responseText := responseText r
                     @ ''\<newline>\<newline>Would you like me to create a ticket for this? Just reply "yes" or "create ticket" and I'll set it up for you.'',
                   action := Some ''ticket_offer'',
                   conversationContext :=
                     Some \<lparr> originalMessage = Some message,
                            contextCategory = Some (detectTicketCategory message) \<rparr> \<rparr>
         else r)\<close>

definition faqReply :: "string \<Rightarrow> string \<Rightarrow> string \<Rightarrow> response" where
  \<open>faqReply faqAnswer message lowerMessage =
     (let r = initialResponse \<lparr> responseText := faqAnswer \<rparr>;
          mightNeedTicket =
            list_ex (\<lambda>indicator. includesStr lowerMessage indicator) faqIndicators
      in if mightNeedTicket
         then r \<lparr> responseText := responseText r
                     @ ''\<newline>\<newline>Would you like me to create a ticket for this request? Just reply "yes" or "create ticket" and I'll set it up for you.'',
                   action := Some ''ticket_offer'',
                   conversationContext :=
                     Some \<lparr> originalMessage = Some message,
                            contextCategory = Some (detectTicketCategory message) \<rparr> \<rparr>
         else r)\<close>

definition summaryOf :: "ticket \<Rightarrow> ticket_summary" where
  "summaryOf t =
     \<lparr> sum_id = ticketId t, sum_ticketNumber = ticketNumber t, sum_title = title t,
       sum_status = status t, sum_priority = priority t, sum_category = category t \<rparr>"

definition statusReply :: "env \<Rightarrow> world \<Rightarrow> string \<Rightarrow> string \<Rightarrow> response" where
  \<open>statusReply e w userId message =
     (let number = extractTicketNumber message
      in case getUserTickets e (ticketStore w) userId number of
           None \<Rightarrow>
             initialResponse \<lparr> responseText :=
               ''I'm having trouble retrieving your ticket information right now. Please try again or check your tickets in the Tickets section.'' \<rparr>
         | Some found \<Rightarrow>
             if length found = 0 then
               (if truthy number
                then initialResponse \<lparr> responseText :=
                       ''I couldn't find a ticket with number #'' @ showOpt number
                       @ '' in your account. Please check the ticket number and try again, or ask me to show all your tickets.'' \<rparr>
                else initialResponse \<lparr> responseText :=
                       ''I couldn't find any tickets in your account. Would you like to create a new ticket?'' \<rparr>)
             else initialResponse
                    \<lparr> responseText := formatTicketStatus e found (truthy number),
                      action := Some ''ticket_status'',
                      tickets := Some (map summaryOf found) \<rparr>)\<close>

definition offerReply :: "string \<Rightarrow> response" where
  \<open>offerReply message =
     initialResponse
       \<lparr> responseText :=
           ''I understand you need help with that. I can create a ticket for your request so our staff can assist you.\<newline>\<newline>Would you like me to create a ticket? Just reply "yes" or "create ticket" and I'll set it up for you.'',
         action := Some ''ticket_offer'',
         conversationContext :=
           Some \<lparr> originalMessage = Some message,
                  contextCategory = Some (detectTicketCategory message) \<rparr> \<rparr>\<close>

definition orElseOpt :: "string option \<Rightarrow> string \<Rightarrow> string" where
  \<comment> \<open>\<^verbatim>\<open>a || b\<close> where \<open>a\<close> may be undefined\<close>
  "orElseOpt a b = (case a of None \<Rightarrow> b | Some s \<Rightarrow> orElse s b)"

text \<open>
  \<^verbatim>\<open>conversationContext && conversationContext.originalMessage\<close>: when it holds, the
  original message and the category of the context.
\<close>

definition contextOriginal ::
  "conversation_context option \<Rightarrow> (string \<times> string option) option" where
  "contextOriginal ctx =
     (case ctx of
        None \<Rightarrow> None
      | Some c \<Rightarrow>
          (case originalMessage c of
             None \<Rightarrow> None
           | Some m \<Rightarrow> if m = [] then None else Some (m, contextCategory c)))"

text \<open>
  The handler: the validation chain (\<^verbatim>\<open>trim\<close>, a length of 1 to 1000, the optional
  user id), then the stages in their order. It returns the HTTP reply and the module
  state and collection after the call. No statement outside a \<^verbatim>\<open>try\<close> block can throw
  on a request of this type, so the handler's outer \<^verbatim>\<open>catch\<close> (status 500) has no
  branch here.
\<close>

definition validRequest :: "request \<Rightarrow> bool" where
  \<comment> \<open>\<^verbatim>\<open>validationResult(req).isEmpty()\<close> for the chain of the route\<close>
  "validRequest req =
     (1 \<le> length (trim (body_message req)) \<and> length (trim (body_message req)) \<le> 1000
      \<and> body_userIdValid req)"

definition handler :: "env \<Rightarrow> world \<Rightarrow> request \<Rightarrow> http_response \<times> world" where
  "handler e w req =
     (if \<not> validRequest req
      then (validationFailed, w)
      else
        let message = trim (body_message req);
            userId = user_id req in
        if detectGreeting message
        then (jsonOk (initialResponse \<lparr> responseText := getGreetingResponse (hour e) \<rparr>), w)
        else
          let lowerMessage = trim (toLowerCase message);
              confirming = isTicketConfirmation lowerMessage
          in
          case (if confirming then contextOriginal (body_conversationContext req) else None) of
            Some (originalMsg, contextCat) \<Rightarrow>
              let cat = orElseOpt contextCat
                          (orElse (detectTicketCategory originalMsg) ''General Inquiry'');
                  ticketInfo = extractTicketInfo originalMsg cat;
                  (r, w') = confirmationReply e w ticketInfo userId
              in (jsonOk r, w')
          | None \<Rightarrow>
            if confirming
            then
              let cat = orElse (detectTicketCategory message) ''General Inquiry'';
                  ticketInfo = extractTicketInfo message cat;
                  (r, w') = confirmationReply e w ticketInfo userId
              in (jsonOk r, w')
            else
            (case findDepartmentByService (departmentData w) message of
               Some department \<Rightarrow> (jsonOk (departmentReply department message lowerMessage), w)
             | None \<Rightarrow>
                 let faqAnswer = matchFAQ (faqData w) message in
                 if truthy faqAnswer
                 then (jsonOk (faqReply (showOpt faqAnswer) message lowerMessage), w)
                 else if detectTicketStatusInquiry lowerMessage
                 then (jsonOk (statusReply e w userId message), w)
                 else if list_ex (\<lambda>indicator. includesStr lowerMessage indicator) ticketIndicators
                 then (jsonOk (offerReply message), w)
                 else (jsonOk (initialResponse
                                 \<lparr> responseText := getGPTResponse e (departmentData w) message \<rparr>),
                       w)))"

section \<open>Properties\<close>

subsection \<open>Strings and patterns\<close>

lemma isSpace_toLowerChar: "isSpace (toLowerChar c) = isSpace c"
  by (simp add: toLowerChar_def isSpace_def)

lemma toLowerCase_trim: "toLowerCase (trim s) = trim (toLowerCase s)"
proof -
  have comp: "isSpace \<circ> toLowerChar = isSpace"
    by (rule ext) (simp add: isSpace_toLowerChar)
  show ?thesis
    by (simp add: toLowerCase_def trim_def dropWhile_map rev_map comp)
qed

lemma dropWhile_snoc_keep:
  "\<not> P y \<Longrightarrow> \<exists>zs. dropWhile P (xs @ [y]) = zs @ [y]"
  by (induction xs) simp_all

lemma dropWhile_trim: "dropWhile isSpace (trim s) = trim s"
proof (cases "dropWhile isSpace s")
  case Nil
  show ?thesis unfolding trim_def Nil by simp
next
  case (Cons y ys)
  have "\<not> isSpace (hd (dropWhile isSpace s))"
    by (rule hd_dropWhile) (simp add: Cons)
  then have ny: "\<not> isSpace y" by (simp add: Cons)
  from dropWhile_snoc_keep[of isSpace y "rev ys"] ny obtain zs
    where zs: "dropWhile isSpace (rev ys @ [y]) = zs @ [y]" by blast
  show ?thesis
    using ny by (simp add: trim_def Cons zs)
qed

lemma trim_trim: "trim (trim s) = trim s"
proof -
  have "trim (trim s) = rev (dropWhile isSpace (rev (trim s)))"
    by (simp add: trim_def[of "trim s"] dropWhile_trim)
  also have "\<dots> = trim s"
    by (simp add: trim_def)
  finally show ?thesis .
qed

lemma lowerMessage_trim: "trim (toLowerCase (trim s)) = trim (toLowerCase s)"
  by (simp add: toLowerCase_trim trim_trim)

lemma matchRe_Alt_iff:
  "(matchRe (Alt a b) k st \<noteq> None) = (matchRe a k st \<noteq> None \<or> matchRe b k st \<noteq> None)"
  by (cases st) (simp split: option.splits)

lemma matchRe_Lit_iff:
  "(matchRe (Lit l) (\<lambda>st. Some (f st)) (s, caps) \<noteq> None) =
     (length l \<le> length s \<and> toLowerCase (take (length l) s) = toLowerCase l)"
  by simp

lemma matchRe_Cap_iff:
  "(matchRe (Cap a) Some (s, caps) \<noteq> None) =
     (matchRe a (\<lambda>st. Some (fst st, snd st @ [take (length s - length (fst st)) s])) (s, caps)
        \<noteq> None)"
  by simp

lemma prefix_matches_Lit:
  "prefix l s \<Longrightarrow> length l \<le> length s \<and> toLowerCase (take (length l) s) = toLowerCase l"
  by (auto simp: prefix_def)

lemma greeting_prefix:
  assumes "p \<in> {''hi'', ''hello'', ''hey'', ''greetings'', ''good morning'', ''good afternoon'',
      ''good evening'', ''good day'', ''hi there'', ''hello there'', ''hey there''}"
    and "prefix p s"
  shows "list_ex (\<lambda>pattern. testAtStart pattern s) greetingPatterns"
proof -
  from assms(2)
  have "length p \<le> length s \<and> toLowerCase (take (length p) s) = toLowerCase p"
    by (rule prefix_matches_Lit)
  with assms(1) show ?thesis
    unfolding greetingPatterns_def testAtStart_def list_ex_Cons_iff list_ex_Nil_iff
      matchRe_Cap_iff matchRe_Alt_iff matchRe_Lit_iff
    by (elim insertE emptyE) (simp_all only: simp_thms)
qed

subsection \<open>The stages of the handler\<close>

lemma handler_invalid:
  "\<not> validRequest req \<Longrightarrow> handler e w req = (validationFailed, w)"
  by (simp add: handler_def)

lemma handler_greeting:
  "validRequest req \<Longrightarrow> detectGreeting (trim (body_message req)) \<Longrightarrow>
   handler e w req =
     (jsonOk (initialResponse \<lparr> responseText := getGreetingResponse (hour e) \<rparr>), w)"
  by (simp add: handler_def Let_def)

lemma handler_confirm_context:
  "validRequest req \<Longrightarrow> \<not> detectGreeting (trim (body_message req)) \<Longrightarrow>
   isTicketConfirmation (trim (toLowerCase (body_message req))) \<Longrightarrow>
   contextOriginal (body_conversationContext req) = Some (originalMsg, contextCat) \<Longrightarrow>
   handler e w req =
     (jsonOk (fst (confirmationReply e w
        (extractTicketInfo originalMsg
           (orElseOpt contextCat (orElse (detectTicketCategory originalMsg) ''General Inquiry'')))
        (user_id req))),
      snd (confirmationReply e w
        (extractTicketInfo originalMsg
           (orElseOpt contextCat (orElse (detectTicketCategory originalMsg) ''General Inquiry'')))
        (user_id req)))"
  by (simp add: handler_def Let_def lowerMessage_trim split_beta)

lemma handler_confirm_plain:
  "validRequest req \<Longrightarrow> \<not> detectGreeting (trim (body_message req)) \<Longrightarrow>
   isTicketConfirmation (trim (toLowerCase (body_message req))) \<Longrightarrow>
   contextOriginal (body_conversationContext req) = None \<Longrightarrow>
   handler e w req =
     (jsonOk (fst (confirmationReply e w
        (extractTicketInfo (trim (body_message req))
           (orElse (detectTicketCategory (trim (body_message req))) ''General Inquiry''))
        (user_id req))),
      snd (confirmationReply e w
        (extractTicketInfo (trim (body_message req))
           (orElse (detectTicketCategory (trim (body_message req))) ''General Inquiry''))
        (user_id req)))"
  by (simp add: handler_def Let_def lowerMessage_trim split_beta)

lemma handler_department:
  "validRequest req \<Longrightarrow> \<not> detectGreeting (trim (body_message req)) \<Longrightarrow>
   \<not> isTicketConfirmation (trim (toLowerCase (body_message req))) \<Longrightarrow>
   findDepartmentByService (departmentData w) (trim (body_message req)) = Some department \<Longrightarrow>
   handler e w req =
     (jsonOk (departmentReply department (trim (body_message req))
        (trim (toLowerCase (body_message req)))), w)"
  by (simp add: handler_def Let_def lowerMessage_trim)

lemma handler_faq:
  "validRequest req \<Longrightarrow> \<not> detectGreeting (trim (body_message req)) \<Longrightarrow>
   \<not> isTicketConfirmation (trim (toLowerCase (body_message req))) \<Longrightarrow>
   findDepartmentByService (departmentData w) (trim (body_message req)) = None \<Longrightarrow>
   matchFAQ (faqData w) (trim (body_message req)) = Some faqAnswer \<Longrightarrow> faqAnswer \<noteq> [] \<Longrightarrow>
   handler e w req =
     (jsonOk (faqReply faqAnswer (trim (body_message req))
        (trim (toLowerCase (body_message req)))), w)"
  by (simp add: handler_def Let_def lowerMessage_trim truthy_def showOpt_def)

lemma handler_status:
  "validRequest req \<Longrightarrow> \<not> detectGreeting (trim (body_message req)) \<Longrightarrow>
   \<not> isTicketConfirmation (trim (toLowerCase (body_message req))) \<Longrightarrow>
   findDepartmentByService (departmentData w) (trim (body_message req)) = None \<Longrightarrow>
   \<not> truthy (matchFAQ (faqData w) (trim (body_message req))) \<Longrightarrow>
   detectTicketStatusInquiry (trim (toLowerCase (body_message req))) \<Longrightarrow>
   handler e w req = (jsonOk (statusReply e w (user_id req) (trim (body_message req))), w)"
  by (simp add: handler_def Let_def lowerMessage_trim)

lemma createTicket_store:
  "\<exists>new. snd (createTicket e store ticketInfo userId) = store @ new \<and> length new \<le> 1"
  by (simp add: createTicket_def Let_def split: save_outcome.split)

lemma confirmationReply_world:
  "faqData (snd (confirmationReply e w ticketInfo userId)) = faqData w \<and>
   departmentData (snd (confirmationReply e w ticketInfo userId)) = departmentData w \<and>
   ticketStore (snd (confirmationReply e w ticketInfo userId)) =
     snd (createTicket e (ticketStore w) ticketInfo userId)"
  by (cases "createTicket e (ticketStore w) ticketInfo userId")
     (simp add: confirmationReply_def split: option.split)

lemma handler_later_world:
  "validRequest req \<Longrightarrow> \<not> detectGreeting (trim (body_message req)) \<Longrightarrow>
   \<not> isTicketConfirmation (trim (toLowerCase (body_message req))) \<Longrightarrow>
   snd (handler e w req) = w"
  by (simp add: handler_def Let_def lowerMessage_trim split: option.split)

lemma greeting_prefix_nonempty:
  "p \<in> {''hi'', ''hello'', ''hey'', ''greetings'', ''good morning'', ''good afternoon'',
      ''good evening'', ''good day'', ''hi there'', ''hello there'', ''hey there''} \<Longrightarrow> p \<noteq> []"
  by (elim insertE emptyE) simp_all

lemma length_trim_toLowerCase: "length (trim (toLowerCase s)) = length (trim s)"
proof -
  have "length (trim (toLowerCase s)) = length (toLowerCase (trim s))"
    by (simp only: toLowerCase_trim)
  then show ?thesis by (simp add: toLowerCase_def)
qed

lemma getGreetingResponse_prefix:
  "prefix (if h < 12 then ''Good morning'' else if h < 18 then ''Good afternoon''
           else ''Good evening'') (getGreetingResponse h)"
  by (simp add: getGreetingResponse_def Let_def)

section \<open>The claims\<close>

subsection \<open>Greetings\<close>

text \<open>
  Claim C6. When the trimmed, lower-cased utterance of a request that passes validation
  begins with one of the greeting prefixes (hi, hello, hey, greetings, good morning, good
  afternoon, good evening, good day, hi there, hello there, hey there), the handler
  answers at stage 1: the reply is the canned greeting for the hour of the server clock
  (Good morning before 12, Good afternoon before 18, Good evening from 18 on), with no
  action, ticket, ticket list or context, whatever else the utterance contains, and the
  module state and the tickets collection are left as they were. The utterance
  "hello, I need a transcript" is the instance of the witness.
\<close>

theorem greeting_terminal:
  assumes "p \<in> {''hi'', ''hello'', ''hey'', ''greetings'', ''good morning'', ''good afternoon'',
      ''good evening'', ''good day'', ''hi there'', ''hello there'', ''hey there''}"
    and "prefix p (trim (toLowerCase (body_message req)))"
    and "length (trim (body_message req)) \<le> 1000"
    and "body_userIdValid req"
  shows "handler e w req =
           (\<lparr> httpStatus = 200, success = True,
               data = Some \<lparr> responseText = getGreetingResponse (hour e), action = None,
                             ticket = None, tickets = None, conversationContext = None \<rparr>,
               errorMessage = None \<rparr>, w)
         \<and> prefix (if hour e < 12 then ''Good morning''
                   else if hour e < 18 then ''Good afternoon'' else ''Good evening'')
              (getGreetingResponse (hour e))"
proof -
  have "p \<noteq> []" using assms(1) by (rule greeting_prefix_nonempty)
  with assms(2) have "1 \<le> length (trim (toLowerCase (body_message req)))"
    by (cases p) (auto simp: prefix_def)
  then have valid: "validRequest req"
    using assms(3,4) by (simp add: validRequest_def length_trim_toLowerCase)
  have "detectGreeting (trim (body_message req))"
    unfolding detectGreeting_def Let_def lowerMessage_trim
    using assms(1,2) by (rule greeting_prefix)
  from handler_greeting[OF valid this]
  show ?thesis
    by (simp add: jsonOk_def initialResponse_def getGreetingResponse_prefix)
qed

theorem greeting_terminal_witness:
  "prefix ''hello'' (trim (toLowerCase ''hello, I need a transcript''))
   \<and> handler \<lparr> hour = 9, save = (\<lambda>d. SaveError), populateFails = False, findFails = False,
               openaiApiKey = None, completion = (\<lambda>p m. None),
               toLocaleDateString = (\<lambda>t y. []) \<rparr>
             \<lparr> faqData = [], departmentData = [], ticketStore = [] \<rparr>
             \<lparr> body_message = ''hello, I need a transcript'', body_userIdValid = True,
               body_conversationContext = None, user_id = ''u1'' \<rparr>
       = (\<lparr> httpStatus = 200, success = True,
            data = Some \<lparr> responseText = getGreetingResponse 9, action = None,
                          ticket = None, tickets = None, conversationContext = None \<rparr>,
            errorMessage = None \<rparr>,
          \<lparr> faqData = [], departmentData = [], ticketStore = [] \<rparr>)"
proof -
  have low: "trim (toLowerCase ''hello, I need a transcript'') = ''hello, i need a transcript''"
    by (simp add: trim_def toLowerCase_def toLowerChar_def isSpace_def)
  have tr: "trim ''hello, I need a transcript'' = ''hello, I need a transcript''"
    by (simp add: trim_def isSpace_def)
  show ?thesis
    using greeting_terminal[of "''hello''"
        "\<lparr> body_message = ''hello, I need a transcript'', body_userIdValid = True,
           body_conversationContext = None, user_id = ''u1'' \<rparr>"
        "\<lparr> hour = 9, save = (\<lambda>d. SaveError), populateFails = False, findFails = False,
               openaiApiKey = None, completion = (\<lambda>p m. None),
               toLocaleDateString = (\<lambda>t y. []) \<rparr>"
        "\<lparr> faqData = [], departmentData = [], ticketStore = [] \<rparr>"]
    by (simp add: low tr)
qed

text \<open>
  Claim C7, as stated, fails: the greeting reads the server clock, so the same greeting
  request answered at 11 and at 12 o'clock gets two different replies, with the same
  utterance, context and catalogs.
\<close>

theorem greeting_depends_on_clock_counterexample:
  "fst (handler \<lparr> hour = 11, save = (\<lambda>d. SaveError), populateFails = False, findFails = False,
               openaiApiKey = None, completion = (\<lambda>p m. None),
               toLocaleDateString = (\<lambda>t y. []) \<rparr>
             \<lparr> faqData = [], departmentData = [], ticketStore = [] \<rparr>
             \<lparr> body_message = ''hello'', body_userIdValid = True,
               body_conversationContext = None, user_id = ''u1'' \<rparr>)
   \<noteq> fst (handler \<lparr> hour = 12, save = (\<lambda>d. SaveError), populateFails = False, findFails = False,
               openaiApiKey = None, completion = (\<lambda>p m. None),
               toLocaleDateString = (\<lambda>t y. []) \<rparr>
             \<lparr> faqData = [], departmentData = [], ticketStore = [] \<rparr>
             \<lparr> body_message = ''hello'', body_userIdValid = True,
               body_conversationContext = None, user_id = ''u1'' \<rparr>)"
proof -
  have tr: "trim ''hello'' = ''hello''"
    by (simp add: trim_def isSpace_def)
  have valid: "validRequest \<lparr> body_message = ''hello'', body_userIdValid = True,
               body_conversationContext = None, user_id = ''u1'' \<rparr>"
    by (simp add: validRequest_def tr)
  have low: "trim (toLowerCase ''hello'') = ''hello''"
    by (simp add: trim_def toLowerCase_def toLowerChar_def isSpace_def)
  have "prefix ''hello'' ''hello''" by simp
  then have "list_ex (\<lambda>pattern. testAtStart pattern ''hello'') greetingPatterns"
    by (rule greeting_prefix[rotated]) simp
  then have greet: "detectGreeting (trim ''hello'')"
    by (simp add: detectGreeting_def tr low)
  have diff: "getGreetingResponse 11 \<noteq> getGreetingResponse 12"
    by (simp add: getGreetingResponse_def)
  show ?thesis
    using valid greet diff
    by (simp add: handler_greeting jsonOk_def initialResponse_def)
qed

text \<open>
  Claim C7, amended. Two invocations on the same greeting request give the same reply,
  and neither has a side effect, whenever the server clock is in the same part of the day
  at both (before 12, from 12 to 17, from 18 on): the reply to a greeting is a function of
  the hour alone, whatever the catalogs, the tickets collection and the outcomes of
  persistence and of the completion service are at the two invocations.
\<close>

theorem greeting_deterministic_within_period:
  assumes "detectGreeting (trim (body_message req))"
    and "(hour e1 < 12) = (hour e2 < 12)"
    and "(hour e1 < 18) = (hour e2 < 18)"
  shows "fst (handler e1 w1 req) = fst (handler e2 w2 req)
         \<and> snd (handler e1 w1 req) = w1 \<and> snd (handler e2 w2 req) = w2"
proof (cases "validRequest req")
  case True
  have "getGreetingResponse (hour e1) = getGreetingResponse (hour e2)"
    using assms(2,3) by (simp add: getGreetingResponse_def)
  then show ?thesis
    using True assms(1) by (simp add: handler_greeting)
next
  case False
  then show ?thesis by (simp add: handler_invalid)
qed

theorem greeting_deterministic_within_period_witness:
  "detectGreeting (trim ''hello'')
   \<and> fst (handler \<lparr> hour = 9, save = (\<lambda>d. SaveError), populateFails = False, findFails = False,
               openaiApiKey = None, completion = (\<lambda>p m. None),
               toLocaleDateString = (\<lambda>t y. []) \<rparr>
             \<lparr> faqData = [], departmentData = [], ticketStore = [] \<rparr>
             \<lparr> body_message = ''hello'', body_userIdValid = True,
               body_conversationContext = None, user_id = ''u1'' \<rparr>)
     = fst (handler \<lparr> hour = 10, save = (\<lambda>d. Saved ''id'' ''TICKET-1'' 0), populateFails = True,
               findFails = True, openaiApiKey = Some ''key'', completion = (\<lambda>p m. Some m),
               toLocaleDateString = (\<lambda>t y. ''Jan 1'') \<rparr>
             \<lparr> faqData = [\<lparr> question = ''Hello?'', faq_keywords = [''hello''],
                            answer = ''Hi.'' \<rparr>],
               departmentData = [], ticketStore = [] \<rparr>
             \<lparr> body_message = ''hello'', body_userIdValid = True,
               body_conversationContext = None, user_id = ''u1'' \<rparr>)"
proof -
  have tr: "trim ''hello'' = ''hello''"
    by (simp add: trim_def isSpace_def)
  have low: "trim (toLowerCase ''hello'') = ''hello''"
    by (simp add: trim_def toLowerCase_def toLowerChar_def isSpace_def)
  have "prefix ''hello'' ''hello''" by simp
  then have "list_ex (\<lambda>pattern. testAtStart pattern ''hello'') greetingPatterns"
    by (rule greeting_prefix[rotated]) simp
  then have greet: "detectGreeting (trim ''hello'')"
    by (simp add: detectGreeting_def tr low)
  show ?thesis
    using greet greeting_deterministic_within_period[of
        "\<lparr> body_message = ''hello'', body_userIdValid = True,
           body_conversationContext = None, user_id = ''u1'' \<rparr>"
        "\<lparr> hour = 9, save = (\<lambda>d. SaveError), populateFails = False, findFails = False,
               openaiApiKey = None, completion = (\<lambda>p m. None),
               toLocaleDateString = (\<lambda>t y. []) \<rparr>"
        "\<lparr> hour = 10, save = (\<lambda>d. Saved ''id'' ''TICKET-1'' 0), populateFails = True,
               findFails = True, openaiApiKey = Some ''key'', completion = (\<lambda>p m. Some m),
               toLocaleDateString = (\<lambda>t y. ''Jan 1'') \<rparr>"
        "\<lparr> faqData = [], departmentData = [], ticketStore = [] \<rparr>"
        "\<lparr> faqData = [\<lparr> question = ''Hello?'', faq_keywords = [''hello''],
                            answer = ''Hi.'' \<rparr>],
               departmentData = [], ticketStore = [] \<rparr>"]
    by simp
qed

subsection \<open>Frame and information flow\<close>

text \<open>
  Claim C9. Every invocation of the handler leaves the FAQ catalog and the department
  catalog as they were, and the tickets collection after the call is the collection
  before it followed by at most one new ticket: no existing ticket is changed or removed,
  and at most one is created.
\<close>

theorem router_frame:
  "faqData (snd (handler e w req)) = faqData w \<and>
   departmentData (snd (handler e w req)) = departmentData w \<and>
   (\<exists>new. ticketStore (snd (handler e w req)) = ticketStore w @ new \<and> length new \<le> 1)"
proof -
  consider (invalid) "\<not> validRequest req"
    | (greeting) "validRequest req" "detectGreeting (trim (body_message req))"
    | (withContext) originalMsg contextCat where "validRequest req"
        "\<not> detectGreeting (trim (body_message req))"
        "isTicketConfirmation (trim (toLowerCase (body_message req)))"
        "contextOriginal (body_conversationContext req) = Some (originalMsg, contextCat)"
    | (plain) "validRequest req" "\<not> detectGreeting (trim (body_message req))"
        "isTicketConfirmation (trim (toLowerCase (body_message req)))"
        "contextOriginal (body_conversationContext req) = None"
    | (later) "validRequest req" "\<not> detectGreeting (trim (body_message req))"
        "\<not> isTicketConfirmation (trim (toLowerCase (body_message req)))"
    by (cases "contextOriginal (body_conversationContext req)") auto
  then show ?thesis
  proof cases
    case invalid
    then show ?thesis by (simp add: handler_invalid)
  next
    case greeting
    then show ?thesis by (simp add: handler_greeting)
  next
    case withContext
    show ?thesis
      unfolding handler_confirm_context[OF withContext]
      using createTicket_store by (simp add: confirmationReply_world)
  next
    case plain
    show ?thesis
      unfolding handler_confirm_plain[OF plain]
      using createTicket_store by (simp add: confirmationReply_world)
  next
    case later
    then show ?thesis by (simp add: handler_later_world)
  qed
qed

text \<open>
  Claim C10. When the trimmed, lower-cased message is not a ticket confirmation, the HTTP
  reply and the state after the call are the same whatever conversation context the
  request carries, or whether it carries one at all.
\<close>

theorem context_only_read_on_confirmation:
  assumes "\<not> isTicketConfirmation (trim (toLowerCase (body_message req)))"
  shows "handler e w (req \<lparr> body_conversationContext := c1 \<rparr>)
         = handler e w (req \<lparr> body_conversationContext := c2 \<rparr>)"
  using assms by (simp add: handler_def validRequest_def Let_def lowerMessage_trim)

theorem context_only_read_on_confirmation_witness:
  "\<not> isTicketConfirmation (trim (toLowerCase ''I need a transcript''))
   \<and> handler \<lparr> hour = 9, save = (\<lambda>d. SaveError), populateFails = False, findFails = False,
               openaiApiKey = None, completion = (\<lambda>p m. None),
               toLocaleDateString = (\<lambda>t y. []) \<rparr>
             \<lparr> faqData = [], departmentData = [], ticketStore = [] \<rparr>
             \<lparr> body_message = ''I need a transcript'', body_userIdValid = True,
               body_conversationContext = None, user_id = ''u1'' \<rparr>
       = handler \<lparr> hour = 9, save = (\<lambda>d. SaveError), populateFails = False, findFails = False,
               openaiApiKey = None, completion = (\<lambda>p m. None),
               toLocaleDateString = (\<lambda>t y. []) \<rparr>
             \<lparr> faqData = [], departmentData = [], ticketStore = [] \<rparr>
             \<lparr> body_message = ''I need a transcript'', body_userIdValid = True,
               body_conversationContext =
                 Some \<lparr> originalMessage = Some ''I need an OTR'',
                        contextCategory = Some ''OTR Request'' \<rparr>,
               user_id = ''u1'' \<rparr>"
proof -
  have low: "trim (toLowerCase ''I need a transcript'') = ''i need a transcript''"
    by (simp add: trim_def toLowerCase_def toLowerChar_def isSpace_def)
  have nc: "\<not> isTicketConfirmation ''i need a transcript''"
    by (simp add: isTicketConfirmation_def)
  show ?thesis
    using context_only_read_on_confirmation[of
        "\<lparr> body_message = ''I need a transcript'', body_userIdValid = True,
           body_conversationContext = None, user_id = ''u1'' \<rparr>"
        "\<lparr> hour = 9, save = (\<lambda>d. SaveError), populateFails = False, findFails = False,
               openaiApiKey = None, completion = (\<lambda>p m. None),
               toLocaleDateString = (\<lambda>t y. []) \<rparr>"
        "\<lparr> faqData = [], departmentData = [], ticketStore = [] \<rparr>"
        None
        "Some \<lparr> originalMessage = Some ''I need an OTR'',
                 contextCategory = Some ''OTR Request'' \<rparr>"]
    by (simp add: low nc)
qed

subsection \<open>Ticket creation on confirmation\<close>

lemma includesStr_iff: "includesStr s k = (\<exists>a b. s = a @ k @ b)"
proof (induction s)
  case Nil
  then show ?case by auto
next
  case (Cons c cs)
  show ?case
  proof
    assume "includesStr (c # cs) k"
    then consider "prefix k (c # cs)" | "includesStr cs k" by auto
    then show "\<exists>a b. c # cs = a @ k @ b"
    proof cases
      case 1
      then obtain b where "c # cs = k @ b" by (auto simp: prefix_def)
      then have "c # cs = [] @ k @ b" by simp
      then show ?thesis by blast
    next
      case 2
      with Cons.IH obtain a b where "cs = a @ k @ b" by blast
      then have "c # cs = (c # a) @ k @ b" by simp
      then show ?thesis by blast
    qed
  next
    assume "\<exists>a b. c # cs = a @ k @ b"
    then obtain a b where ab: "c # cs = a @ k @ b" by blast
    show "includesStr (c # cs) k"
    proof (cases a)
      case Nil
      with ab have "prefix k (c # cs)" by (simp add: prefix_def)
      then show ?thesis by simp
    next
      case (Cons x xs)
      with ab have "cs = xs @ k @ b" by simp
      with Cons.IH have "includesStr cs k" by blast
      then show ?thesis by simp
    qed
  qed
qed

lemma detectTicketCategory_loop_range:
  "detectTicketCategory_loop tbl lm \<in> insert ''General Inquiry'' (fst ` set tbl)"
  by (induction tbl lm rule: detectTicketCategory_loop.induct) (auto simp: Let_def)

lemma detectTicketCategory_nonempty: "detectTicketCategory m \<noteq> []"
proof -
  have "[] \<notin> insert ''General Inquiry'' (fst ` set ticketKeywords)"
    by (simp add: ticketKeywords_def)
  then show ?thesis
    unfolding detectTicketCategory_def
    using detectTicketCategory_loop_range[of ticketKeywords "toLowerCase m"] by metis
qed

lemma extract_example:
  "requestDetails (extractTicketInfo ''I need an OTR, 2 copies, purpose: job application'' ''OTR Request'')
   = \<lparr> numberOfCopies = Some 2, purpose = Some ''job application'', subjectCode = None,
       subjectName = None \<rparr>"
  by code_simp

lemma createTicket_Saved:
  assumes "\<And>d. save e d = Saved newId newNumber now" and "\<not> populateFails e"
    and "title ticketInfo \<noteq> []" and "description ticketInfo \<noteq> []"
    and "category ticketInfo \<noteq> []" and "priority ticketInfo \<noteq> []"
  shows "createTicket e store ticketInfo userId =
     (Some \<lparr> title = (if length (take 200 (title ticketInfo)) < 5
                        then ''Request from chatbot: '' @ take 200 (title ticketInfo)
                        else take 200 (title ticketInfo)),
              description = (if length (take 5000 (description ticketInfo)) < 10
                        then take 5000 (description ticketInfo) @ '' (Created via chatbot)''
                        else take 5000 (description ticketInfo)),
              category = category ticketInfo,
              priority = priority ticketInfo,
              requestDetails = requestDetails ticketInfo,
              createdBy = userId,
              status = ''Pending'',
              ticketId = newId,
              ticketNumber = newNumber,
              createdAt = now,
              assignedTo = None,
              resolution = None \<rparr>,
      store @ [\<lparr> title = (if length (take 200 (title ticketInfo)) < 5
                        then ''Request from chatbot: '' @ take 200 (title ticketInfo)
                        else take 200 (title ticketInfo)),
              description = (if length (take 5000 (description ticketInfo)) < 10
                        then take 5000 (description ticketInfo) @ '' (Created via chatbot)''
                        else take 5000 (description ticketInfo)),
              category = category ticketInfo,
              priority = priority ticketInfo,
              requestDetails = requestDetails ticketInfo,
              createdBy = userId,
              status = ''Pending'',
              ticketId = newId,
              ticketNumber = newNumber,
              createdAt = now,
              assignedTo = None,
              resolution = None \<rparr>])"
  using assms(2-) by (simp add: createTicket_def Let_def assms(1) orElse_def substring0_def)

lemma extractTicketInfo_fields:
  "title (extractTicketInfo m c) = take 100 m"
  "description (extractTicketInfo m c) = m"
  "category (extractTicketInfo m c) = c"
  "priority (extractTicketInfo m c) \<noteq> []"
  by (simp_all add: extractTicketInfo_def Let_def substring0_def)

lemma confirmed_category_nonempty:
  "orElseOpt contextCat (orElse (detectTicketCategory m) ''General Inquiry'') \<noteq> []"
  by (cases contextCat) (simp_all add: orElseOpt_def orElse_def detectTicketCategory_nonempty)

lemma confirmed_category:
  "orElseOpt contextCat (orElse (detectTicketCategory m) ''General Inquiry'')
   = (if truthy contextCat then showOpt contextCat else detectTicketCategory m)"
  by (cases contextCat)
     (simp_all add: orElseOpt_def orElse_def detectTicketCategory_nonempty truthy_def showOpt_def)

lemma handler_confirm_context_created:
  assumes "validRequest req"
    and "\<not> detectGreeting (trim (body_message req))"
    and "isTicketConfirmation (trim (toLowerCase (body_message req)))"
    and "body_conversationContext req = Some c"
    and "originalMessage c = Some originalMsg" and "originalMsg \<noteq> []"
    and "\<And>d. save e d = Saved newId newNumber now" and "\<not> populateFails e"
  shows "\<exists>t. handler e w req =
            (\<lparr> httpStatus = 200, success = True,
                data = Some \<lparr> responseText = createdText t,
                              action = Some ''ticket_created'',
                              ticket = Some \<lparr> ref_id = newId, ref_ticketNumber = newNumber,
                                              ref_title = title t \<rparr>,
                              tickets = None, conversationContext = None \<rparr>,
                errorMessage = None \<rparr>,
             w \<lparr> ticketStore := ticketStore w @ [t] \<rparr>)
          \<and> category t = (if truthy (contextCategory c) then showOpt (contextCategory c)
                          else detectTicketCategory originalMsg)
          \<and> requestDetails t = requestDetails (extractTicketInfo originalMsg (category t))
          \<and> priority t = priority (extractTicketInfo originalMsg (category t))
          \<and> title t = (if length originalMsg < 5 then ''Request from chatbot: '' @ originalMsg
                       else take 100 originalMsg)
          \<and> description t = (if length originalMsg < 10
                             then originalMsg @ '' (Created via chatbot)''
                             else take 5000 originalMsg)
          \<and> createdBy t = user_id req \<and> status t = ''Pending''
          \<and> ticketNumber t = newNumber \<and> ticketId t = newId
          \<and> includesStr (createdText t) (''#'' @ newNumber)
          \<and> includesStr (createdText t) (title t)"
proof -
  define cat where
    "cat = orElseOpt (contextCategory c) (orElse (detectTicketCategory originalMsg) ''General Inquiry'')"
  define info where "info = extractTicketInfo originalMsg cat"
  have oc: "contextOriginal (body_conversationContext req) = Some (originalMsg, contextCategory c)"
    using assms(4-6) by (simp add: contextOriginal_def)
  have cat_ne: "cat \<noteq> []"
    unfolding cat_def by (rule confirmed_category_nonempty)
  have cat_eq: "cat = (if truthy (contextCategory c) then showOpt (contextCategory c)
                       else detectTicketCategory originalMsg)"
    unfolding cat_def by (rule confirmed_category)
  have fields: "title info = take 100 originalMsg" "description info = originalMsg"
    "category info = cat" "priority info \<noteq> []"
    unfolding info_def by (rule extractTicketInfo_fields)+
  have t_ne: "title info \<noteq> []" "description info \<noteq> []" "category info \<noteq> []"
    using assms(6) cat_ne by (simp_all add: fields)
  note created = createTicket_Saved[of e newId newNumber now info "ticketStore w" "user_id req",
      OF assms(7) assms(8) t_ne fields(4)]
  define t where "t = the (fst (createTicket e (ticketStore w) info (user_id req)))"
  have ct: "createTicket e (ticketStore w) info (user_id req) = (Some t, ticketStore w @ [t])"
    unfolding t_def created by simp
  have t_fields:
    "title t = (if length originalMsg < 5 then ''Request from chatbot: '' @ originalMsg
                else take 100 originalMsg)"
    "description t = (if length originalMsg < 10 then originalMsg @ '' (Created via chatbot)''
                      else take 5000 originalMsg)"
    "category t = cat" "priority t = priority info" "requestDetails t = requestDetails info"
    "createdBy t = user_id req" "status t = ''Pending''" "ticketNumber t = newNumber"
    "ticketId t = newId"
    unfolding t_def created by (simp_all add: fields min_def)
  have h: "handler e w req =
            (jsonOk (fst (confirmationReply e w info (user_id req))),
             snd (confirmationReply e w info (user_id req)))"
    unfolding info_def cat_def by (rule handler_confirm_context[OF assms(1-3) oc])
  have reply: "confirmationReply e w info (user_id req) =
      (initialResponse
         \<lparr> responseText := createdText t, action := Some ''ticket_created'',
           ticket := Some \<lparr> ref_id = ticketId t, ref_ticketNumber = ticketNumber t,
                             ref_title = title t \<rparr> \<rparr>,
       w \<lparr> ticketStore := ticketStore w @ [t] \<rparr>)"
    by (simp add: confirmationReply_def ct)
  have inc1: "includesStr (createdText t) (''#'' @ newNumber)"
  proof -
    have "\<exists>a b. createdText t = a @ (''#'' @ newNumber) @ b"
      unfolding createdText_def t_fields(8) by (intro exI[of _ "''Great! I've created a ticket (''"] exI) simp
    then show ?thesis by (simp only: includesStr_iff)
  qed
  have inc2: "includesStr (createdText t) (title t)"
  proof -
    have "\<exists>a b. createdText t = a @ title t @ b"
      unfolding createdText_def
      by (intro exI[of _ "''Great! I've created a ticket (#'' @ ticketNumber t @ '') for your request: \"''"] exI) simp
    then show ?thesis by (simp only: includesStr_iff)
  qed
  have "handler e w req =
            (\<lparr> httpStatus = 200, success = True,
                data = Some \<lparr> responseText = createdText t,
                              action = Some ''ticket_created'',
                              ticket = Some \<lparr> ref_id = newId, ref_ticketNumber = newNumber,
                                              ref_title = title t \<rparr>,
                              tickets = None, conversationContext = None \<rparr>,
                errorMessage = None \<rparr>,
             w \<lparr> ticketStore := ticketStore w @ [t] \<rparr>)"
    unfolding h reply by (simp add: jsonOk_def initialResponse_def t_fields(8,9))
  moreover have "requestDetails t = requestDetails (extractTicketInfo originalMsg (category t))"
    "priority t = priority (extractTicketInfo originalMsg (category t))"
    by (simp_all add: t_fields info_def)
  ultimately show ?thesis
    using t_fields inc1 inc2 cat_eq by (intro exI[of _ t]) simp
qed

lemma yes_facts:
  "trim ''yes'' = ''yes''"
  "trim (toLowerCase ''yes'') = ''yes''"
  "\<not> detectGreeting ''yes''"
  "isTicketConfirmation ''yes''"
  by code_simp+



text \<open>
  Claim C1. Let a valid request be classified as a ticket confirmation (it is no greeting,
  and its trimmed, lower-cased message is one of the affirmations), let its context carry
  a non-empty original message, and let persistence succeed. Then the handler appends
  exactly one ticket to the collection. The ticket's category is the category of the
  context when it carries one, and the category detected in the original message
  otherwise; its request details and priority are those extracted from the original
  message, and its title and description are the original message (cut to 100 and 5000
  characters, padded when shorter than 5 and 10). Nothing of the ticket is taken from
  the confirming utterance. The reply has the action ticket_created and a text that
  contains the ticket number and the title. In particular, for the utterance "yes" and
  the context with the original message "I need an OTR, 2 copies, purpose: job
  application" and the category "OTR Request", the ticket has 2 as its number of copies
  and "job application" as its purpose.
\<close>

theorem confirmation_uses_original_message:
  assumes "validRequest req"
    and "\<not> detectGreeting (trim (body_message req))"
    and "isTicketConfirmation (trim (toLowerCase (body_message req)))"
    and "body_conversationContext req = Some c"
    and "originalMessage c = Some originalMsg" and "originalMsg \<noteq> []"
    and "\<And>d. save e d = Saved newId newNumber now" and "\<not> populateFails e"
  shows "(\<exists>t. handler e w req =
            (\<lparr> httpStatus = 200, success = True,
                data = Some \<lparr> responseText = createdText t,
                              action = Some ''ticket_created'',
                              ticket = Some \<lparr> ref_id = newId, ref_ticketNumber = newNumber,
                                              ref_title = title t \<rparr>,
                              tickets = None, conversationContext = None \<rparr>,
                errorMessage = None \<rparr>,
             w \<lparr> ticketStore := ticketStore w @ [t] \<rparr>)
          \<and> category t = (if truthy (contextCategory c) then showOpt (contextCategory c)
                          else detectTicketCategory originalMsg)
          \<and> requestDetails t = requestDetails (extractTicketInfo originalMsg (category t))
          \<and> priority t = priority (extractTicketInfo originalMsg (category t))
          \<and> title t = (if length originalMsg < 5 then ''Request from chatbot: '' @ originalMsg
                       else take 100 originalMsg)
          \<and> description t = (if length originalMsg < 10
                             then originalMsg @ '' (Created via chatbot)''
                             else take 5000 originalMsg)
          \<and> createdBy t = user_id req \<and> status t = ''Pending''
          \<and> ticketNumber t = newNumber \<and> ticketId t = newId
          \<and> includesStr (createdText t) (''#'' @ newNumber)
          \<and> includesStr (createdText t) (title t))
       \<and> (\<exists>t. handler e w
                 \<lparr> body_message = ''yes'', body_userIdValid = True,
                   body_conversationContext =
                     Some \<lparr> originalMessage =
                              Some ''I need an OTR, 2 copies, purpose: job application'',
                            contextCategory = Some ''OTR Request'' \<rparr>,
                   user_id = user_id req \<rparr> =
            (\<lparr> httpStatus = 200, success = True,
                data = Some \<lparr> responseText = createdText t,
                              action = Some ''ticket_created'',
                              ticket = Some \<lparr> ref_id = newId, ref_ticketNumber = newNumber,
                                              ref_title = title t \<rparr>,
                              tickets = None, conversationContext = None \<rparr>,
                errorMessage = None \<rparr>,
             w \<lparr> ticketStore := ticketStore w @ [t] \<rparr>)
          \<and> category t = ''OTR Request''
          \<and> numberOfCopies (requestDetails t) = Some 2
          \<and> purpose (requestDetails t) = Some ''job application''
          \<and> title t = ''I need an OTR, 2 copies, purpose: job application''
          \<and> includesStr (createdText t) (''#'' @ newNumber)
          \<and> includesStr (createdText t) (title t))"
proof
  show "\<exists>t. handler e w req =
            (\<lparr> httpStatus = 200, success = True,
                data = Some \<lparr> responseText = createdText t,
                              action = Some ''ticket_created'',
                              ticket = Some \<lparr> ref_id = newId, ref_ticketNumber = newNumber,
                                              ref_title = title t \<rparr>,
                              tickets = None, conversationContext = None \<rparr>,
                errorMessage = None \<rparr>,
             w \<lparr> ticketStore := ticketStore w @ [t] \<rparr>)
          \<and> category t = (if truthy (contextCategory c) then showOpt (contextCategory c)
                          else detectTicketCategory originalMsg)
          \<and> requestDetails t = requestDetails (extractTicketInfo originalMsg (category t))
          \<and> priority t = priority (extractTicketInfo originalMsg (category t))
          \<and> title t = (if length originalMsg < 5 then ''Request from chatbot: '' @ originalMsg
                       else take 100 originalMsg)
          \<and> description t = (if length originalMsg < 10
                             then originalMsg @ '' (Created via chatbot)''
                             else take 5000 originalMsg)
          \<and> createdBy t = user_id req \<and> status t = ''Pending''
          \<and> ticketNumber t = newNumber \<and> ticketId t = newId
          \<and> includesStr (createdText t) (''#'' @ newNumber)
          \<and> includesStr (createdText t) (title t)"
    using assms by (rule handler_confirm_context_created)
next
  let ?orig = "''I need an OTR, 2 copies, purpose: job application''"
  let ?c = "\<lparr> originalMessage = Some ?orig, contextCategory = Some ''OTR Request'' \<rparr>"
  let ?req = "\<lparr> body_message = ''yes'', body_userIdValid = True,
                body_conversationContext = Some ?c, user_id = user_id req \<rparr>"
  have "validRequest ?req" by (simp add: validRequest_def yes_facts)
  moreover have "\<not> detectGreeting (trim (body_message ?req))" by (simp add: yes_facts)
  moreover have "isTicketConfirmation (trim (toLowerCase (body_message ?req)))"
    by (simp add: yes_facts)
  moreover have "body_conversationContext ?req = Some ?c" by simp
  moreover have "originalMessage ?c = Some ?orig" by simp
  moreover have "?orig \<noteq> []" by simp
  ultimately obtain t where t:
    "handler e w ?req =
            (\<lparr> httpStatus = 200, success = True,
                data = Some \<lparr> responseText = createdText t,
                              action = Some ''ticket_created'',
                              ticket = Some \<lparr> ref_id = newId, ref_ticketNumber = newNumber,
                                              ref_title = title t \<rparr>,
                              tickets = None, conversationContext = None \<rparr>,
                errorMessage = None \<rparr>,
             w \<lparr> ticketStore := ticketStore w @ [t] \<rparr>)"
    "category t = (if truthy (contextCategory ?c) then showOpt (contextCategory ?c)
                          else detectTicketCategory ?orig)"
    "requestDetails t = requestDetails (extractTicketInfo ?orig (category t))"
    "title t = (if length ?orig < 5 then ''Request from chatbot: '' @ ?orig
                       else take 100 ?orig)"
    "includesStr (createdText t) (''#'' @ newNumber)"
    "includesStr (createdText t) (title t)"
    using handler_confirm_context_created[of ?req ?c ?orig e newId newNumber now w, OF _ _ _ _ _ _ assms(7,8)]
    by blast
  have cat: "category t = ''OTR Request''"
    using t(2) by (simp add: truthy_def showOpt_def)
  have "requestDetails t = \<lparr> numberOfCopies = Some 2, purpose = Some ''job application'',
      subjectCode = None, subjectName = None \<rparr>"
    using t(3) unfolding cat by (simp only: extract_example)
  then have rd: "numberOfCopies (requestDetails t) = Some 2"
    "purpose (requestDetails t) = Some ''job application''"
    by simp_all
  have ti: "title t = ?orig" using t(4) by simp
  show "\<exists>t. handler e w ?req =
            (\<lparr> httpStatus = 200, success = True,
                data = Some \<lparr> responseText = createdText t,
                              action = Some ''ticket_created'',
                              ticket = Some \<lparr> ref_id = newId, ref_ticketNumber = newNumber,
                                              ref_title = title t \<rparr>,
                              tickets = None, conversationContext = None \<rparr>,
                errorMessage = None \<rparr>,
             w \<lparr> ticketStore := ticketStore w @ [t] \<rparr>)
          \<and> category t = ''OTR Request''
          \<and> numberOfCopies (requestDetails t) = Some 2
          \<and> purpose (requestDetails t) = Some ''job application''
          \<and> title t = ?orig
          \<and> includesStr (createdText t) (''#'' @ newNumber)
          \<and> includesStr (createdText t) (title t)"
    using t(1,5,6) cat rd ti by (intro exI[of _ t]) simp
qed

theorem confirmation_uses_original_message_witness:
  "validRequest \<lparr> body_message = ''Yes'', body_userIdValid = True,
       body_conversationContext =
         Some \<lparr> originalMessage = Some ''please enroll me, subject code: cs101'',
                contextCategory = None \<rparr>,
       user_id = ''u1'' \<rparr>
   \<and> \<not> detectGreeting (trim ''Yes'')
   \<and> isTicketConfirmation (trim (toLowerCase ''Yes''))
   \<and> (\<exists>t. handler \<lparr> hour = 9, save = (\<lambda>d. Saved ''id7'' ''TICKET-7'' 1700), populateFails = False,
               findFails = False, openaiApiKey = None, completion = (\<lambda>p m. None),
               toLocaleDateString = (\<lambda>t y. []) \<rparr>
             \<lparr> faqData = [], departmentData = [], ticketStore = [] \<rparr>
             \<lparr> body_message = ''Yes'', body_userIdValid = True,
               body_conversationContext =
                 Some \<lparr> originalMessage = Some ''please enroll me, subject code: cs101'',
                        contextCategory = None \<rparr>,
               user_id = ''u1'' \<rparr>
        = (\<lparr> httpStatus = 200, success = True,
             data = Some \<lparr> responseText = createdText t, action = Some ''ticket_created'',
                           ticket = Some \<lparr> ref_id = ''id7'', ref_ticketNumber = ''TICKET-7'',
                                           ref_title = ''please enroll me, subject code: cs101'' \<rparr>,
                           tickets = None, conversationContext = None \<rparr>,
             errorMessage = None \<rparr>,
           \<lparr> faqData = [], departmentData = [], ticketStore = [t] \<rparr>)
        \<and> category t = ''Subject Enrollment''
        \<and> subjectCode (requestDetails t) = Some ''CS101''
        \<and> description t = ''please enroll me, subject code: cs101'')"
proof -
  let ?orig = "''please enroll me, subject code: cs101''"
  let ?c = "\<lparr> originalMessage = Some ?orig, contextCategory = None \<rparr>"
  let ?req = "\<lparr> body_message = ''Yes'', body_userIdValid = True,
                body_conversationContext = Some ?c, user_id = ''u1'' \<rparr>"
  let ?e = "\<lparr> hour = 9, save = (\<lambda>d. Saved ''id7'' ''TICKET-7'' 1700), populateFails = False,
               findFails = False, openaiApiKey = None, completion = (\<lambda>p m. None),
               toLocaleDateString = (\<lambda>t y. []) \<rparr>"
  let ?w = "\<lparr> faqData = [], departmentData = [], ticketStore = [] \<rparr>"
  have facts: "trim ''Yes'' = ''Yes''" "trim (toLowerCase ''Yes'') = ''yes''"
    "\<not> detectGreeting ''Yes''"
    by code_simp+
  have cat: "detectTicketCategory ?orig = ''Subject Enrollment''" by code_simp
  have sc: "subjectCode (requestDetails (extractTicketInfo ?orig ''Subject Enrollment''))
            = Some ''CS101''" by code_simp
  have valid: "validRequest ?req" by (simp add: validRequest_def facts)
  have ng: "\<not> detectGreeting (trim ''Yes'')" by (simp add: facts)
  have conf: "isTicketConfirmation (trim (toLowerCase ''Yes''))"
    by (simp add: facts yes_facts)
  from confirmation_uses_original_message[of ?req ?c ?orig ?e "''id7''" "''TICKET-7''" 1700 ?w]
    valid ng conf
  obtain t where t:
    "handler ?e ?w ?req =
            (\<lparr> httpStatus = 200, success = True,
                data = Some \<lparr> responseText = createdText t,
                              action = Some ''ticket_created'',
                              ticket = Some \<lparr> ref_id = ''id7'', ref_ticketNumber = ''TICKET-7'',
                                              ref_title = title t \<rparr>,
                              tickets = None, conversationContext = None \<rparr>,
                errorMessage = None \<rparr>,
             ?w \<lparr> ticketStore := ticketStore ?w @ [t] \<rparr>)"
    "category t = (if truthy (contextCategory ?c) then showOpt (contextCategory ?c)
                          else detectTicketCategory ?orig)"
    "requestDetails t = requestDetails (extractTicketInfo ?orig (category t))"
    "title t = (if length ?orig < 5 then ''Request from chatbot: '' @ ?orig
                       else take 100 ?orig)"
    "description t = (if length ?orig < 10 then ?orig @ '' (Created via chatbot)''
                             else take 5000 ?orig)"
    by auto
  have c2: "category t = ''Subject Enrollment''"
    using t(2) by (simp add: truthy_def cat)
  have s2: "subjectCode (requestDetails t) = Some ''CS101''"
    using t(3) unfolding c2 by (simp only: sc)
  have ti: "title t = ?orig" using t(4) by simp
  have de: "description t = ?orig" using t(5) by simp
  show ?thesis
    using valid ng conf t(1) c2 s2 ti de by (intro conjI exI[of _ t]) simp_all
qed



subsection \<open>Department lookup\<close>

lemma findDepartmentByService_no_cue:
  "\<not> list_ex (\<lambda>keyword. includesStr (toLowerCase m) keyword) locationKeywords \<Longrightarrow>
   findDepartmentByService ds m = None"
  by (simp add: findDepartmentByService_def Let_def)

lemma findDepartment_loop_Some:
  "(findDepartment_loop ds lm = Some d) =
     (\<exists>pre post. ds = pre @ d # post \<and> serviceMatch lm d
        \<and> (\<forall>x \<in> set pre. \<not> serviceMatch lm x))"
proof (induction ds)
  case Nil
  show ?case by simp
next
  case (Cons a ds)
  show ?case
  proof (cases "serviceMatch lm a")
    case True
    have "(\<exists>pre post. a # ds = pre @ d # post \<and> serviceMatch lm d
        \<and> (\<forall>x \<in> set pre. \<not> serviceMatch lm x)) = (a = d)"
    proof
      assume "\<exists>pre post. a # ds = pre @ d # post \<and> serviceMatch lm d
        \<and> (\<forall>x \<in> set pre. \<not> serviceMatch lm x)"
      then obtain pre post where p: "a # ds = pre @ d # post"
        "\<forall>x \<in> set pre. \<not> serviceMatch lm x" by blast
      show "a = d"
      proof (cases pre)
        case Nil
        with p(1) show ?thesis by simp
      next
        case (Cons x xs)
        with p(1) have "x = a" by simp
        with p(2) Cons True show ?thesis by simp
      qed
    next
      assume "a = d"
      then have "a # ds = [] @ d # ds \<and> serviceMatch lm d
        \<and> (\<forall>x \<in> set []. \<not> serviceMatch lm x)" using True by simp
      then show "\<exists>pre post. a # ds = pre @ d # post \<and> serviceMatch lm d
        \<and> (\<forall>x \<in> set pre. \<not> serviceMatch lm x)" by blast
    qed
    with True show ?thesis by simp
  next
    case False
    have "(\<exists>pre post. a # ds = pre @ d # post \<and> serviceMatch lm d
        \<and> (\<forall>x \<in> set pre. \<not> serviceMatch lm x))
      = (\<exists>pre post. ds = pre @ d # post \<and> serviceMatch lm d
        \<and> (\<forall>x \<in> set pre. \<not> serviceMatch lm x))"
    proof
      assume "\<exists>pre post. a # ds = pre @ d # post \<and> serviceMatch lm d
        \<and> (\<forall>x \<in> set pre. \<not> serviceMatch lm x)"
      then obtain pre post where p: "a # ds = pre @ d # post" "serviceMatch lm d"
        "\<forall>x \<in> set pre. \<not> serviceMatch lm x" by blast
      show "\<exists>pre post. ds = pre @ d # post \<and> serviceMatch lm d
        \<and> (\<forall>x \<in> set pre. \<not> serviceMatch lm x)"
      proof (cases pre)
        case Nil
        with p(1,2) False show ?thesis by simp
      next
        case (Cons x xs)
        with p have "ds = xs @ d # post \<and> serviceMatch lm d
          \<and> (\<forall>x \<in> set xs. \<not> serviceMatch lm x)" by simp
        then show ?thesis by blast
      qed
    next
      assume "\<exists>pre post. ds = pre @ d # post \<and> serviceMatch lm d
        \<and> (\<forall>x \<in> set pre. \<not> serviceMatch lm x)"
      then obtain pre post where p: "ds = pre @ d # post" "serviceMatch lm d"
        "\<forall>x \<in> set pre. \<not> serviceMatch lm x" by blast
      then have "a # ds = (a # pre) @ d # post \<and> serviceMatch lm d
        \<and> (\<forall>x \<in> set (a # pre). \<not> serviceMatch lm x)" using False by simp
      then show "\<exists>pre post. a # ds = pre @ d # post \<and> serviceMatch lm d
        \<and> (\<forall>x \<in> set pre. \<not> serviceMatch lm x)" by blast
    qed
    with False Cons.IH show ?thesis by simp
  qed
qed

lemma findDepartment_loop_hit:
  "d \<in> set ds \<Longrightarrow> serviceMatch lm d \<Longrightarrow> \<exists>d'. findDepartment_loop ds lm = Some d'"
  by (induction ds) auto

lemma findDepartmentByService_iff:
  "(findDepartmentByService ds m = Some d) =
     (list_ex (\<lambda>keyword. includesStr (toLowerCase m) keyword) locationKeywords
      \<and> (\<exists>pre post. ds = pre @ d # post \<and> serviceMatch (toLowerCase m) d
            \<and> (\<forall>x \<in> set pre. \<not> serviceMatch (toLowerCase m) x)))"
proof (cases "ds = []")
  case True
  then show ?thesis by (simp add: findDepartmentByService_def)
next
  case False
  then show ?thesis
    by (simp add: findDepartmentByService_def Let_def findDepartment_loop_Some)
qed

lemma coe_facts:
  "trim ''where can I get my COE'' = ''where can I get my COE''"
  "trim (toLowerCase ''where can I get my COE'') = ''where can i get my coe''"
  "toLowerCase ''where can I get my COE'' = ''where can i get my coe''"
  "\<not> detectGreeting ''where can I get my COE''"
  "\<not> isTicketConfirmation ''where can i get my coe''"
  "list_ex (\<lambda>keyword. includesStr ''where can i get my coe'' keyword) locationKeywords"
  "\<not> list_ex (\<lambda>indicator. includesStr ''where can i get my coe'' indicator) departmentIndicators"
  "includesStr ''where can i get my coe'' (toLowerCase ''COE'')"
  "trim ''where can i get my coe'' = ''where can i get my coe''"
  by code_simp+

lemma need_coe_facts:
  "trim ''I need to get my COE'' = ''I need to get my COE''"
  "trim (toLowerCase ''I need to get my COE'') = ''i need to get my coe''"
  "toLowerCase ''I need to get my COE'' = ''i need to get my coe''"
  "\<not> detectGreeting ''I need to get my COE''"
  "\<not> isTicketConfirmation ''i need to get my coe''"
  "list_ex (\<lambda>keyword. includesStr ''i need to get my coe'' keyword) locationKeywords"
  "list_ex (\<lambda>indicator. includesStr ''i need to get my coe'' indicator) departmentIndicators"
  "includesStr ''i need to get my coe'' (toLowerCase ''COE'')"
  "detectTicketCategory ''I need to get my COE'' = ''Document Request''"
  "trim ''i need to get my coe'' = ''i need to get my coe''"
  by code_simp+

lemma serviceMatch_COE:
  "services dept = Some svcs \<Longrightarrow> ''COE'' \<in> set svcs \<Longrightarrow> includesStr lm (toLowerCase ''COE'') \<Longrightarrow>
   serviceMatch lm dept"
  by (auto simp: serviceMatch_def list_ex_iff)

lemma findDepartmentByService_hit:
  assumes "dept \<in> set ds" and "serviceMatch (toLowerCase m) dept"
    and "list_ex (\<lambda>keyword. includesStr (toLowerCase m) keyword) locationKeywords"
  shows "\<exists>d. findDepartmentByService ds m = Some d"
proof -
  from assms(1) have "ds \<noteq> []" by auto
  with findDepartment_loop_hit[OF assms(1,2)] assms(3) show ?thesis
    by (simp add: findDepartmentByService_def Let_def)
qed

text \<open>
  Claim C3. The department lookup answers only when the lower-cased utterance contains one
  of the location cues (where, location, find, get, obtain, available, can i get, how to
  get), and then it returns the first department, in catalog order, one of whose services
  occurs in the lower-cased utterance when lower-cased itself: every department before it
  has no such service. When some department of the catalog lists the service "COE", the
  utterance "where can I get my COE" is answered with that first department's
  information and the action department_info, and the utterance "I need to get my COE"
  with the action ticket_offer and a context whose original message is the utterance.
\<close>

theorem department_lookup_first_match:
  assumes "dept \<in> set (departmentData w)"
    and "services dept = Some svcs"
    and "''COE'' \<in> set svcs"
  shows \<open>((findDepartmentByService ds m = Some d) =
            (list_ex (\<lambda>keyword. includesStr (toLowerCase m) keyword)
               [''where'', ''location'', ''find'', ''get'', ''obtain'', ''available'',
                ''can i get'', ''how to get'']
             \<and> (\<exists>pre post. ds = pre @ d # post \<and> serviceMatch (toLowerCase m) d
                   \<and> (\<forall>x \<in> set pre. \<not> serviceMatch (toLowerCase m) x))))
         \<and> (\<exists>first.
               findDepartmentByService (departmentData w) ''where can I get my COE'' = Some first
               \<and> handler e w
                   \<lparr> body_message = ''where can I get my COE'', body_userIdValid = True,
                     body_conversationContext = ctx, user_id = uid \<rparr> =
                   (\<lparr> httpStatus = 200, success = True,
                       data = Some
                         \<lparr> responseText = formatDepartmentInfo first,
                           action = Some ''department_info'', ticket = None, tickets = None,
                           conversationContext = None \<rparr>,
                       errorMessage = None \<rparr>, w))
         \<and> (\<exists>first.
               findDepartmentByService (departmentData w) ''I need to get my COE'' = Some first
               \<and> handler e w
                   \<lparr> body_message = ''I need to get my COE'', body_userIdValid = True,
                     body_conversationContext = ctx, user_id = uid \<rparr> =
                   (\<lparr> httpStatus = 200, success = True,
                       data = Some
                         \<lparr> responseText = formatDepartmentInfo first
                             @ ''\<newline>\<newline>Would you like me to create a ticket for this? Just reply "yes" or "create ticket" and I'll set it up for you.'',
                           action = Some ''ticket_offer'', ticket = None, tickets = None,
                           conversationContext =
                             Some \<lparr> originalMessage = Some ''I need to get my COE'',
                                    contextCategory = Some ''Document Request'' \<rparr> \<rparr>,
                       errorMessage = None \<rparr>, w))\<close>
proof (intro conjI)
  show "(findDepartmentByService ds m = Some d) =
            (list_ex (\<lambda>keyword. includesStr (toLowerCase m) keyword)
               [''where'', ''location'', ''find'', ''get'', ''obtain'', ''available'',
                ''can i get'', ''how to get'']
             \<and> (\<exists>pre post. ds = pre @ d # post \<and> serviceMatch (toLowerCase m) d
                   \<and> (\<forall>x \<in> set pre. \<not> serviceMatch (toLowerCase m) x)))"
    using findDepartmentByService_iff[of ds m d] by (simp only: locationKeywords_def)
next
  let ?m = "''where can I get my COE''"
  let ?req = "\<lparr> body_message = ?m, body_userIdValid = True,
                body_conversationContext = ctx, user_id = uid \<rparr>"
  have sm: "serviceMatch (toLowerCase ?m) dept"
    using assms(2,3) coe_facts(8) by (simp only: coe_facts(3)) (rule serviceMatch_COE)
  have cue: "list_ex (\<lambda>keyword. includesStr (toLowerCase ?m) keyword) locationKeywords"
    using coe_facts(6) by (simp only: coe_facts(3))
  from findDepartmentByService_hit[OF assms(1) sm cue]
  obtain first where first: "findDepartmentByService (departmentData w) ?m = Some first"
    by blast
  have valid: "validRequest ?req" by (simp add: validRequest_def coe_facts)
  have "handler e w ?req =
      (jsonOk (departmentReply first (trim (body_message ?req))
         (trim (toLowerCase (body_message ?req)))), w)"
    using valid first by (intro handler_department) (simp_all add: coe_facts)
  then have "handler e w ?req =
                   (\<lparr> httpStatus = 200, success = True,
                       data = Some
                         \<lparr> responseText = formatDepartmentInfo first,
                           action = Some ''department_info'', ticket = None, tickets = None,
                           conversationContext = None \<rparr>,
                       errorMessage = None \<rparr>, w)"
    by (simp add: coe_facts departmentReply_def Let_def jsonOk_def initialResponse_def
          del: includesStr.simps)
  with first show "\<exists>first.
               findDepartmentByService (departmentData w) ?m = Some first
               \<and> handler e w ?req =
                   (\<lparr> httpStatus = 200, success = True,
                       data = Some
                         \<lparr> responseText = formatDepartmentInfo first,
                           action = Some ''department_info'', ticket = None, tickets = None,
                           conversationContext = None \<rparr>,
                       errorMessage = None \<rparr>, w)"
    by blast
next
  let ?m = "''I need to get my COE''"
  let ?req = "\<lparr> body_message = ?m, body_userIdValid = True,
                body_conversationContext = ctx, user_id = uid \<rparr>"
  have sm: "serviceMatch (toLowerCase ?m) dept"
    using assms(2,3) need_coe_facts(8) by (simp only: need_coe_facts(3)) (rule serviceMatch_COE)
  have cue: "list_ex (\<lambda>keyword. includesStr (toLowerCase ?m) keyword) locationKeywords"
    using need_coe_facts(6) by (simp only: need_coe_facts(3))
  from findDepartmentByService_hit[OF assms(1) sm cue]
  obtain first where first: "findDepartmentByService (departmentData w) ?m = Some first"
    by blast
  have valid: "validRequest ?req" by (simp add: validRequest_def need_coe_facts)
  have "handler e w ?req =
      (jsonOk (departmentReply first (trim (body_message ?req))
         (trim (toLowerCase (body_message ?req)))), w)"
    using valid first by (intro handler_department) (simp_all add: need_coe_facts)
  then have \<open>handler e w ?req =
                   (\<lparr> httpStatus = 200, success = True,
                       data = Some
                         \<lparr> responseText = formatDepartmentInfo first
                             @ ''\<newline>\<newline>Would you like me to create a ticket for this? Just reply "yes" or "create ticket" and I'll set it up for you.'',
                           action = Some ''ticket_offer'', ticket = None, tickets = None,
                           conversationContext =
                             Some \<lparr> originalMessage = Some ''I need to get my COE'',
                                    contextCategory = Some ''Document Request'' \<rparr> \<rparr>,
                       errorMessage = None \<rparr>, w)\<close>
    by (simp add: need_coe_facts departmentReply_def Let_def jsonOk_def initialResponse_def
          del: includesStr.simps)
  with first show \<open>\<exists>first.
               findDepartmentByService (departmentData w) ?m = Some first
               \<and> handler e w ?req =
                   (\<lparr> httpStatus = 200, success = True,
                       data = Some
                         \<lparr> responseText = formatDepartmentInfo first
                             @ ''\<newline>\<newline>Would you like me to create a ticket for this? Just reply "yes" or "create ticket" and I'll set it up for you.'',
                           action = Some ''ticket_offer'', ticket = None, tickets = None,
                           conversationContext =
                             Some \<lparr> originalMessage = Some ''I need to get my COE'',
                                    contextCategory = Some ''Document Request'' \<rparr> \<rparr>,
                       errorMessage = None \<rparr>, w)\<close>
    by blast
qed

theorem department_lookup_first_match_witness:
  \<open>\<lparr> name = ''Registrar'', location = ''Admin Building, Room 101'', hours = ''8-5'',
       contact = Some ''registrar@example.edu'', phone = None,
       services = Some [''TOR'', ''COE''] \<rparr>
     \<in> set [\<lparr> name = ''Library'', location = ''Main Hall'', hours = ''9-6'', contact = None,
               phone = None, services = Some [''Books''] \<rparr>,
             \<lparr> name = ''Registrar'', location = ''Admin Building, Room 101'', hours = ''8-5'',
               contact = Some ''registrar@example.edu'', phone = None,
               services = Some [''TOR'', ''COE''] \<rparr>,
             \<lparr> name = ''Records'', location = ''Annex'', hours = ''8-5'', contact = None,
               phone = None, services = Some [''coe''] \<rparr>]
   \<and> ''COE'' \<in> set [''TOR'', ''COE'']
   \<and> findDepartmentByService
         [\<lparr> name = ''Library'', location = ''Main Hall'', hours = ''9-6'', contact = None,
               phone = None, services = Some [''Books''] \<rparr>,
             \<lparr> name = ''Registrar'', location = ''Admin Building, Room 101'', hours = ''8-5'',
               contact = Some ''registrar@example.edu'', phone = None,
               services = Some [''TOR'', ''COE''] \<rparr>,
             \<lparr> name = ''Records'', location = ''Annex'', hours = ''8-5'', contact = None,
               phone = None, services = Some [''coe''] \<rparr>]
         ''where can I get my COE''
       = Some \<lparr> name = ''Registrar'', location = ''Admin Building, Room 101'', hours = ''8-5'',
               contact = Some ''registrar@example.edu'', phone = None,
               services = Some [''TOR'', ''COE''] \<rparr>
   \<and> handler \<lparr> hour = 9, save = (\<lambda>d. SaveError), populateFails = False,
               findFails = False, openaiApiKey = None, completion = (\<lambda>p m. None),
               toLocaleDateString = (\<lambda>t y. ''Jan 1'') \<rparr>
        \<lparr> faqData = [],
          departmentData =
            [\<lparr> name = ''Library'', location = ''Main Hall'', hours = ''9-6'', contact = None,
               phone = None, services = Some [''Books''] \<rparr>,
             \<lparr> name = ''Registrar'', location = ''Admin Building, Room 101'', hours = ''8-5'',
               contact = Some ''registrar@example.edu'', phone = None,
               services = Some [''TOR'', ''COE''] \<rparr>,
             \<lparr> name = ''Records'', location = ''Annex'', hours = ''8-5'', contact = None,
               phone = None, services = Some [''coe''] \<rparr>],
          ticketStore = [] \<rparr>
        \<lparr> body_message = ''where can I get my COE'', body_userIdValid = True,
          body_conversationContext = None, user_id = ''u1'' \<rparr>
      = (\<lparr> httpStatus = 200, success = True,
           data = Some
             \<lparr> responseText = formatDepartmentInfo
                   \<lparr> name = ''Registrar'', location = ''Admin Building, Room 101'',
                     hours = ''8-5'', contact = Some ''registrar@example.edu'', phone = None,
                     services = Some [''TOR'', ''COE''] \<rparr>,
               action = Some ''department_info'', ticket = None, tickets = None,
               conversationContext = None \<rparr>,
           errorMessage = None \<rparr>,
         \<lparr> faqData = [],
          departmentData =
            [\<lparr> name = ''Library'', location = ''Main Hall'', hours = ''9-6'', contact = None,
               phone = None, services = Some [''Books''] \<rparr>,
             \<lparr> name = ''Registrar'', location = ''Admin Building, Room 101'', hours = ''8-5'',
               contact = Some ''registrar@example.edu'', phone = None,
               services = Some [''TOR'', ''COE''] \<rparr>,
             \<lparr> name = ''Records'', location = ''Annex'', hours = ''8-5'', contact = None,
               phone = None, services = Some [''coe''] \<rparr>],
          ticketStore = [] \<rparr>)\<close>
proof -
  let ?lib = "\<lparr> name = ''Library'', location = ''Main Hall'', hours = ''9-6'', contact = None,
               phone = None, services = Some [''Books''] \<rparr>"
  let ?reg = "\<lparr> name = ''Registrar'', location = ''Admin Building, Room 101'', hours = ''8-5'',
               contact = Some ''registrar@example.edu'', phone = None,
               services = Some [''TOR'', ''COE''] \<rparr>"
  let ?rec = "\<lparr> name = ''Records'', location = ''Annex'', hours = ''8-5'', contact = None,
               phone = None, services = Some [''coe''] \<rparr>"
  let ?w = "\<lparr> faqData = [], departmentData = [?lib, ?reg, ?rec], ticketStore = [] \<rparr>"
  let ?e = "\<lparr> hour = 9, save = (\<lambda>d. SaveError), populateFails = False,
               findFails = False, openaiApiKey = None, completion = (\<lambda>p m. None),
               toLocaleDateString = (\<lambda>t y. ''Jan 1'') \<rparr>"
  have found: "findDepartmentByService [?lib, ?reg, ?rec] ''where can I get my COE'' = Some ?reg"
    by code_simp
  have mem: "?reg \<in> set (departmentData ?w)" by simp
  have svc: "services ?reg = Some [''TOR'', ''COE'']" by simp
  have coe: "''COE'' \<in> set [''TOR'', ''COE'']" by simp
  from department_lookup_first_match[OF mem svc coe, of "[]" "[]" ?lib ?e None "''u1''"]
  obtain first where first:
    "findDepartmentByService (departmentData ?w) ''where can I get my COE'' = Some first"
    "handler ?e ?w \<lparr> body_message = ''where can I get my COE'', body_userIdValid = True,
          body_conversationContext = None, user_id = ''u1'' \<rparr> =
        (\<lparr> httpStatus = 200, success = True,
            data = Some \<lparr> responseText = formatDepartmentInfo first,
                          action = Some ''department_info'', ticket = None, tickets = None,
                          conversationContext = None \<rparr>,
            errorMessage = None \<rparr>, ?w)"
    by blast
  from first(1) found have "first = ?reg" by simp
  with first(2) found show ?thesis by simp
qed

subsection \<open>FAQ matches\<close>

lemma fee_inquiry_facts:
  "trim ''fee inquiry'' = ''fee inquiry''"
  "trim (toLowerCase ''fee inquiry'') = ''fee inquiry''"
  "\<not> detectGreeting ''fee inquiry''"
  "\<not> isTicketConfirmation ''fee inquiry''"
  "findDepartmentByService [] ''fee inquiry'' = None"
  "matchFAQ [\<lparr> question = ''How much is the tuition?'', faq_keywords = [''fee''],
               answer = ''See the cashier.'' \<rparr>] ''fee inquiry'' = Some ''See the cashier.''"
  "includesStr ''fee inquiry'' ''inquiry''"
  "\<not> list_ex (\<lambda>indicator. includesStr ''fee inquiry'' indicator) faqIndicators"
  by code_simp+

text \<open>
  Claim C2, as stated, fails for the cue "inquiry": the list of cues of the FAQ stage
  does not contain it. The utterance "fee inquiry" matches an FAQ entry by its keyword
  and contains "inquiry", and the reply is the stored answer alone, with no action and no
  context.
\<close>

theorem faq_inquiry_cue_counterexample:
  "matchFAQ [\<lparr> question = ''How much is the tuition?'', faq_keywords = [''fee''],
               answer = ''See the cashier.'' \<rparr>] ''fee inquiry'' = Some ''See the cashier.''
   \<and> includesStr (trim (toLowerCase ''fee inquiry'')) ''inquiry''
   \<and> handler \<lparr> hour = 9, save = (\<lambda>d. SaveError), populateFails = False,
               findFails = False, openaiApiKey = None, completion = (\<lambda>p m. None),
               toLocaleDateString = (\<lambda>t y. ''Jan 1'') \<rparr>
        \<lparr> faqData = [\<lparr> question = ''How much is the tuition?'', faq_keywords = [''fee''],
                       answer = ''See the cashier.'' \<rparr>],
          departmentData = [], ticketStore = [] \<rparr>
        \<lparr> body_message = ''fee inquiry'', body_userIdValid = True,
          body_conversationContext = None, user_id = ''u1'' \<rparr>
      = (\<lparr> httpStatus = 200, success = True,
           data = Some \<lparr> responseText = ''See the cashier.'', action = None, ticket = None,
                         tickets = None, conversationContext = None \<rparr>,
           errorMessage = None \<rparr>,
         \<lparr> faqData = [\<lparr> question = ''How much is the tuition?'', faq_keywords = [''fee''],
                       answer = ''See the cashier.'' \<rparr>],
           departmentData = [], ticketStore = [] \<rparr>)"
proof -
  let ?faqs = "[\<lparr> question = ''How much is the tuition?'', faq_keywords = [''fee''],
                       answer = ''See the cashier.'' \<rparr>]"
  let ?w = "\<lparr> faqData = ?faqs, departmentData = [], ticketStore = [] \<rparr>"
  let ?req = "\<lparr> body_message = ''fee inquiry'', body_userIdValid = True,
          body_conversationContext = None, user_id = ''u1'' \<rparr>"
  let ?e = "\<lparr> hour = 9, save = (\<lambda>d. SaveError), populateFails = False,
               findFails = False, openaiApiKey = None, completion = (\<lambda>p m. None),
               toLocaleDateString = (\<lambda>t y. ''Jan 1'') \<rparr>"
  have valid: "validRequest ?req" by (simp add: validRequest_def fee_inquiry_facts)
  have "handler ?e ?w ?req =
      (jsonOk (faqReply ''See the cashier.'' (trim (body_message ?req))
         (trim (toLowerCase (body_message ?req)))), ?w)"
    using valid by (intro handler_faq) (simp_all add: fee_inquiry_facts)
  then have "handler ?e ?w ?req =
      (\<lparr> httpStatus = 200, success = True,
           data = Some \<lparr> responseText = ''See the cashier.'', action = None, ticket = None,
                         tickets = None, conversationContext = None \<rparr>,
           errorMessage = None \<rparr>, ?w)"
    by (simp add: fee_inquiry_facts faqReply_def Let_def jsonOk_def initialResponse_def
          del: includesStr.simps)
  then show ?thesis
    by (simp add: fee_inquiry_facts del: includesStr.simps)
qed

text \<open>
  Claim C2, amended. When a valid request reaches the FAQ stage (it is no greeting, no
  confirmation and no department is found for it), its utterance matches an FAQ entry
  with a non-empty answer, and its trimmed, lower-cased utterance contains one of the
  cues request, need, want, apply, create, submit, help with (the cue set of the FAQ
  stage, which has no "inquiry"), the reply is the stored answer followed by the ticket
  offer, its action is ticket_offer, and its context holds the utterance and the category
  detected in it, which is the context and the action the department stage gives the
  same utterance.
\<close>

theorem faq_ticket_offer:
  assumes "validRequest req"
    and "\<not> detectGreeting (trim (body_message req))"
    and "\<not> isTicketConfirmation (trim (toLowerCase (body_message req)))"
    and "findDepartmentByService (departmentData w) (trim (body_message req)) = None"
    and "matchFAQ (faqData w) (trim (body_message req)) = Some faqAnswer"
    and "faqAnswer \<noteq> []"
    and "cue \<in> {''request'', ''need'', ''want'', ''apply'', ''create'', ''submit'', ''help with''}"
    and "includesStr (trim (toLowerCase (body_message req))) cue"
  shows \<open>handler e w req =
           (\<lparr> httpStatus = 200, success = True,
               data = Some
                 \<lparr> responseText = faqAnswer
                     @ ''\<newline>\<newline>Would you like me to create a ticket for this request? Just reply "yes" or "create ticket" and I'll set it up for you.'',
                   action = Some ''ticket_offer'', ticket = None, tickets = None,
                   conversationContext =
                     Some \<lparr> originalMessage = Some (trim (body_message req)),
                            contextCategory =
                              Some (detectTicketCategory (trim (body_message req))) \<rparr> \<rparr>,
               errorMessage = None \<rparr>, w)
         \<and> conversationContext
             (departmentReply department (trim (body_message req))
                (trim (toLowerCase (body_message req)))) =
             Some \<lparr> originalMessage = Some (trim (body_message req)),
                    contextCategory = Some (detectTicketCategory (trim (body_message req))) \<rparr>
         \<and> action
             (departmentReply department (trim (body_message req))
                (trim (toLowerCase (body_message req)))) = Some ''ticket_offer''\<close>
proof -
  have f: "list_ex (\<lambda>indicator. includesStr (trim (toLowerCase (body_message req))) indicator)
             faqIndicators"
    using assms(7,8) unfolding list_ex_iff faqIndicators_def by auto
  have d: "list_ex (\<lambda>indicator. includesStr (trim (toLowerCase (body_message req))) indicator)
             departmentIndicators"
    using assms(7,8) unfolding list_ex_iff departmentIndicators_def by auto
  have "handler e w req =
      (jsonOk (faqReply faqAnswer (trim (body_message req))
         (trim (toLowerCase (body_message req)))), w)"
    using assms(1-6) by (rule handler_faq)
  then show ?thesis
    using f d
    by (simp add: faqReply_def departmentReply_def Let_def jsonOk_def initialResponse_def)
qed

theorem faq_ticket_offer_witness:
  \<open>validRequest \<lparr> body_message = ''I need fee info'', body_userIdValid = True,
          body_conversationContext = None, user_id = ''u1'' \<rparr>
   \<and> \<not> detectGreeting (trim ''I need fee info'')
   \<and> \<not> isTicketConfirmation (trim (toLowerCase ''I need fee info''))
   \<and> matchFAQ [\<lparr> question = ''How much is the tuition?'', faq_keywords = [''fee''],
               answer = ''See the cashier.'' \<rparr>] (trim ''I need fee info'')
       = Some ''See the cashier.''
   \<and> includesStr (trim (toLowerCase ''I need fee info'')) ''need''
   \<and> handler \<lparr> hour = 9, save = (\<lambda>d. SaveError), populateFails = False,
               findFails = False, openaiApiKey = None, completion = (\<lambda>p m. None),
               toLocaleDateString = (\<lambda>t y. ''Jan 1'') \<rparr>
        \<lparr> faqData = [\<lparr> question = ''How much is the tuition?'', faq_keywords = [''fee''],
                       answer = ''See the cashier.'' \<rparr>],
          departmentData = [], ticketStore = [] \<rparr>
        \<lparr> body_message = ''I need fee info'', body_userIdValid = True,
          body_conversationContext = None, user_id = ''u1'' \<rparr>
      = (\<lparr> httpStatus = 200, success = True,
           data = Some
             \<lparr> responseText = ''See the cashier.''
                 @ ''\<newline>\<newline>Would you like me to create a ticket for this request? Just reply "yes" or "create ticket" and I'll set it up for you.'',
               action = Some ''ticket_offer'', ticket = None, tickets = None,
               conversationContext =
                 Some \<lparr> originalMessage = Some ''I need fee info'',
                        contextCategory = Some ''Tuition Payment'' \<rparr> \<rparr>,
           errorMessage = None \<rparr>,
         \<lparr> faqData = [\<lparr> question = ''How much is the tuition?'', faq_keywords = [''fee''],
                       answer = ''See the cashier.'' \<rparr>],
           departmentData = [], ticketStore = [] \<rparr>)\<close>
proof -
  let ?faqs = "[\<lparr> question = ''How much is the tuition?'', faq_keywords = [''fee''],
                       answer = ''See the cashier.'' \<rparr>]"
  let ?w = "\<lparr> faqData = ?faqs, departmentData = [], ticketStore = [] \<rparr>"
  let ?req = "\<lparr> body_message = ''I need fee info'', body_userIdValid = True,
          body_conversationContext = None, user_id = ''u1'' \<rparr>"
  let ?e = "\<lparr> hour = 9, save = (\<lambda>d. SaveError), populateFails = False,
               findFails = False, openaiApiKey = None, completion = (\<lambda>p m. None),
               toLocaleDateString = (\<lambda>t y. ''Jan 1'') \<rparr>"
  have facts:
    "trim ''I need fee info'' = ''I need fee info''"
    "trim (toLowerCase ''I need fee info'') = ''i need fee info''"
    "\<not> detectGreeting ''I need fee info''"
    "\<not> isTicketConfirmation ''i need fee info''"
    "findDepartmentByService [] ''I need fee info'' = None"
    "matchFAQ ?faqs ''I need fee info'' = Some ''See the cashier.''"
    "includesStr ''i need fee info'' ''need''"
    "detectTicketCategory ''I need fee info'' = ''Tuition Payment''"
    by code_simp+
  have valid: "validRequest ?req" by (simp add: validRequest_def facts)
  have h1: "\<not> detectGreeting (trim (body_message ?req))" by (simp add: facts)
  have h2: "\<not> isTicketConfirmation (trim (toLowerCase (body_message ?req)))"
    by (simp add: facts)
  have h3: "findDepartmentByService (departmentData ?w) (trim (body_message ?req)) = None"
    by (simp add: facts)
  have h4: "matchFAQ (faqData ?w) (trim (body_message ?req)) = Some ''See the cashier.''"
    by (simp add: facts)
  have h5: "''See the cashier.'' \<noteq> []" by simp
  have h6: "''need'' \<in> {''request'', ''need'', ''want'', ''apply'', ''create'', ''submit'',
      ''help with''}" by simp
  have h7: "includesStr (trim (toLowerCase (body_message ?req))) ''need''"
    by (simp add: facts del: includesStr.simps)
  from faq_ticket_offer[OF valid h1 h2 h3 h4 h5 h6 h7, of ?e
      "\<lparr> name = ''Cashier'', location = ''Main Hall'', hours = ''8-5'', contact = None,
         phone = None, services = Some [''fee''] \<rparr>"]
  have \<open>handler ?e ?w ?req =
           (\<lparr> httpStatus = 200, success = True,
               data = Some
                 \<lparr> responseText = ''See the cashier.''
                     @ ''\<newline>\<newline>Would you like me to create a ticket for this request? Just reply "yes" or "create ticket" and I'll set it up for you.'',
                   action = Some ''ticket_offer'', ticket = None, tickets = None,
                   conversationContext =
                     Some \<lparr> originalMessage = Some ''I need fee info'',
                            contextCategory = Some ''Tuition Payment'' \<rparr> \<rparr>,
               errorMessage = None \<rparr>, ?w)\<close>
    by (simp add: facts del: includesStr.simps)
  then show ?thesis
    using valid by (simp add: facts del: includesStr.simps)
qed

subsection \<open>Ticket status inquiries\<close>

lemma getUserTickets_all:
  assumes "\<not> findFails e"
  shows "\<exists>found. getUserTickets e store userId None = Some found
     \<and> length found = min 10 (length (filter (\<lambda>t. createdBy t = userId) store))
     \<and> sorted_wrt (\<lambda>a b. createdAt b \<le> createdAt a) found
     \<and> set found \<subseteq> set (filter (\<lambda>t. createdBy t = userId) store)
     \<and> (\<forall>t \<in> set (filter (\<lambda>t. createdBy t = userId) store) - set found.
           \<forall>u \<in> set found. createdAt t \<le> createdAt u)"
proof -
  define mine where "mine = filter (\<lambda>t. createdBy t = userId) store"
  define key where "key = (\<lambda>t::ticket. - int (createdAt t))"
  define sorted_mine where "sorted_mine = sort_key key mine"
  define found where "found = take 10 sorted_mine"
  have get: "getUserTickets e store userId None = Some found"
    using assms by (simp add: getUserTickets_def truthy_def found_def sorted_mine_def key_def mine_def)
  have len: "length found = min 10 (length mine)"
    by (simp add: found_def sorted_mine_def min.commute)
  have srt: "sorted_wrt (\<lambda>a b. key a \<le> key b) sorted_mine"
    using sorted_sort_key[of key mine] by (simp add: sorted_map sorted_mine_def)
  then have desc_all: "sorted_wrt (\<lambda>a b. createdAt b \<le> createdAt a) sorted_mine"
    by (simp add: key_def)
  then have desc: "sorted_wrt (\<lambda>a b. createdAt b \<le> createdAt a) found"
    unfolding found_def by (rule sorted_wrt_take)
  have sub: "set found \<subseteq> set mine"
    using set_take_subset[of 10 sorted_mine] by (simp add: found_def sorted_mine_def)
  have split: "sorted_mine = found @ drop 10 sorted_mine"
    by (simp add: found_def)
  have cross: "\<forall>u \<in> set found. \<forall>t \<in> set (drop 10 sorted_mine). createdAt t \<le> createdAt u"
    using desc_all by (subst (asm) split) (simp add: sorted_wrt_append)
  have rest: "\<forall>t \<in> set mine - set found. \<forall>u \<in> set found. createdAt t \<le> createdAt u"
  proof (intro ballI)
    fix t u assume t: "t \<in> set mine - set found" and u: "u \<in> set found"
    have "set mine = set found \<union> set (drop 10 sorted_mine)"
      using arg_cong[OF split, of set] by (simp add: sorted_mine_def)
    with t have "t \<in> set (drop 10 sorted_mine)" by blast
    with cross u show "createdAt t \<le> createdAt u" by blast
  qed
  show ?thesis
    using get len desc sub rest unfolding mine_def by blast
qed

lemma summaryEntries_numbered:
  "summaryEntries e k ts =
     concat (map (\<lambda>i. summaryEntry e (k + i) (ts ! i)) [0..<length ts])"
proof (induction ts arbitrary: k)
  case Nil
  show ?case by simp
next
  case (Cons t ts)
  have "[0..<length (t # ts)] = 0 # map Suc [0..<length ts]"
    by (simp add: upt_conv_Cons map_Suc_upt del: upt_Suc)
  then show ?case
    by (simp add: Cons.IH[of "Suc k"] comp_def del: upt_Suc)
qed

lemma formatTicketStatus_list:
  assumes "ts \<noteq> []" and "length ts \<le> 10"
  shows "formatTicketStatus e ts False =
           ''I found '' @ showNat (length ts) @ '' ticket''
           @ (if length ts > 1 then ''s'' else []) @ '' in your account:'' @ [CHR 0x0A, CHR 0x0A]
           @ summaryEntries e 0 ts
           @ (if length ts = 10 then truncationNote else [])
           @ followUpPrompt"
  using assms by (simp add: formatTicketStatus_def)

lemma show_ticket_facts:
  "trim ''show ticket'' = ''show ticket''"
  "trim (toLowerCase ''show ticket'') = ''show ticket''"
  "\<not> detectGreeting ''show ticket''"
  "\<not> isTicketConfirmation ''show ticket''"
  "detectTicketStatusInquiry ''show ticket''"
  "extractTicketNumber ''show ticket'' = None"
  by code_simp+

lemma my_tickets_facts:
  "trim ''my tickets'' = ''my tickets''"
  "trim (toLowerCase ''my tickets'') = ''my tickets''"
  "\<not> detectGreeting ''my tickets''"
  "\<not> isTicketConfirmation ''my tickets''"
  "detectTicketStatusInquiry ''my tickets''"
  "extractTicketNumber ''my tickets'' = Some ''S''"
  "\<not> list_ex (\<lambda>keyword. includesStr (toLowerCase ''my tickets'') keyword) locationKeywords"
  by code_simp+

lemma my_tickets_not_found:
  assumes "body_message req = ''my tickets''"
    and "body_userIdValid req"
    and "\<not> truthy (matchFAQ (faqData w) ''my tickets'')"
    and "\<not> findFails e"
    and "filter (\<lambda>t. createdBy t = user_id req \<and> ticketNumber t = ''S'') (ticketStore w) = []"
  shows \<open>handler e w req =
           (jsonOk (initialResponse \<lparr> responseText := ''I couldn't find a ticket with number #S in your account. Please check the ticket number and try again, or ask me to show all your tickets.'' \<rparr>), w)\<close>
proof -
  have valid: "validRequest req"
    using assms(2) by (simp add: validRequest_def assms(1) my_tickets_facts)
  have dept: "findDepartmentByService (departmentData w) (trim (body_message req)) = None"
    unfolding assms(1) my_tickets_facts(1)
    using my_tickets_facts(7) by (rule findDepartmentByService_no_cue)
  have found: "getUserTickets e (ticketStore w) (user_id req) (Some ''S'') = Some []"
    using assms(4,5) by (simp add: getUserTickets_def truthy_def)
  have reply: \<open>statusReply e w (user_id req) ''my tickets'' =
      initialResponse \<lparr> responseText := ''I couldn't find a ticket with number #S in your account. Please check the ticket number and try again, or ask me to show all your tickets.'' \<rparr>\<close>
    by (simp add: statusReply_def Let_def my_tickets_facts(6) found truthy_def showOpt_def)
  have "handler e w req = (jsonOk (statusReply e w (user_id req) (trim (body_message req))), w)"
    using valid dept assms(3)
    by (intro handler_status) (simp_all add: assms(1) my_tickets_facts)
  then show ?thesis
    by (simp add: assms(1) my_tickets_facts reply)
qed

text \<open>
  The list view. When a valid request reaches the status stage, no ticket number is
  extracted from it (as for "show ticket"), the query succeeds and the user has tickets,
  the reply has the action ticket_status and lists the user's tickets newest first, at
  most 10 of them: the listed tickets are the user's, their number is the smaller of 10
  and the number of the user's tickets, no ticket left out is newer than a listed one,
  and the text is the header, one entry per listed ticket that starts with its number in
  the list, the note "(Showing most recent 10 tickets. ...)" exactly when 10 tickets are
  listed, and the follow-up prompt.
\<close>

lemma status_list_view:
  assumes "validRequest req"
    and "\<not> detectGreeting (trim (body_message req))"
    and "\<not> isTicketConfirmation (trim (toLowerCase (body_message req)))"
    and "findDepartmentByService (departmentData w) (trim (body_message req)) = None"
    and "\<not> truthy (matchFAQ (faqData w) (trim (body_message req)))"
    and "detectTicketStatusInquiry (trim (toLowerCase (body_message req)))"
    and "extractTicketNumber (trim (body_message req)) = None"
    and "\<not> findFails e"
    and "filter (\<lambda>t. createdBy t = user_id req) (ticketStore w) \<noteq> []"
  shows "\<exists>found.
           handler e w req =
             (\<lparr> httpStatus = 200, success = True,
                 data = Some
                   \<lparr> responseText =
                       ''I found '' @ showNat (length found) @ '' ticket''
                       @ (if length found > 1 then ''s'' else [])
                       @ '' in your account:'' @ [CHR 0x0A, CHR 0x0A]
                       @ concat (map (\<lambda>i.
                            showNat (i + 1) @ ''. '' @ statusEmoji (status (found ! i))
                            @ '' **#'' @ ticketNumber (found ! i) @ ''** - ''
                            @ title (found ! i) @ [CHR 0x0A]
                            @ ''   Status: '' @ status (found ! i)
                            @ '' | Priority: '' @ priority (found ! i) @ '' | ''
                            @ toLocaleDateString e (createdAt (found ! i)) False
                            @ [CHR 0x0A, CHR 0x0A])
                          [0..<length found])
                       @ (if length found = 10 then ([CHR 0x0A] @ ''(Showing most recent 10 tickets. View all tickets in the Tickets section.)'') else [])
                       @ [CHR 0x0A] @ ''Would you like to know more about a specific ticket? Just mention the ticket number!'',
                     action = Some ''ticket_status'', ticket = None,
                     tickets = Some (map summaryOf found), conversationContext = None \<rparr>,
                 errorMessage = None \<rparr>, w)
         \<and> length found =
             min 10 (length (filter (\<lambda>t. createdBy t = user_id req) (ticketStore w)))
         \<and> sorted_wrt (\<lambda>a b. createdAt b \<le> createdAt a) found
         \<and> set found \<subseteq> set (filter (\<lambda>t. createdBy t = user_id req) (ticketStore w))
         \<and> (\<forall>t \<in> set (filter (\<lambda>t. createdBy t = user_id req) (ticketStore w)) - set found.
               \<forall>u \<in> set found. createdAt t \<le> createdAt u)"
proof -
  from getUserTickets_all[OF assms(8), of "ticketStore w" "user_id req"]
  obtain found where found:
    "getUserTickets e (ticketStore w) (user_id req) None = Some found"
    "length found = min 10 (length (filter (\<lambda>t. createdBy t = user_id req) (ticketStore w)))"
    "sorted_wrt (\<lambda>a b. createdAt b \<le> createdAt a) found"
    "set found \<subseteq> set (filter (\<lambda>t. createdBy t = user_id req) (ticketStore w))"
    "\<forall>t \<in> set (filter (\<lambda>t. createdBy t = user_id req) (ticketStore w)) - set found.
           \<forall>u \<in> set found. createdAt t \<le> createdAt u"
    by blast
  have ne: "found \<noteq> []" and le: "length found \<le> 10"
    using found(2) assms(9) by (auto simp: min_def split: if_splits)
  have reply: "statusReply e w (user_id req) (trim (body_message req)) =
      initialResponse
        \<lparr> responseText := formatTicketStatus e found False,
          action := Some ''ticket_status'',
          tickets := Some (map summaryOf found) \<rparr>"
    using ne by (simp add: statusReply_def Let_def assms(7) found(1) truthy_def)
  have "handler e w req =
             (\<lparr> httpStatus = 200, success = True,
                 data = Some
                   \<lparr> responseText =
                       ''I found '' @ showNat (length found) @ '' ticket''
                       @ (if length found > 1 then ''s'' else [])
                       @ '' in your account:'' @ [CHR 0x0A, CHR 0x0A]
                       @ concat (map (\<lambda>i.
                            showNat (i + 1) @ ''. '' @ statusEmoji (status (found ! i))
                            @ '' **#'' @ ticketNumber (found ! i) @ ''** - ''
                            @ title (found ! i) @ [CHR 0x0A]
                            @ ''   Status: '' @ status (found ! i)
                            @ '' | Priority: '' @ priority (found ! i) @ '' | ''
                            @ toLocaleDateString e (createdAt (found ! i)) False
                            @ [CHR 0x0A, CHR 0x0A])
                          [0..<length found])
                       @ (if length found = 10 then ([CHR 0x0A] @ ''(Showing most recent 10 tickets. View all tickets in the Tickets section.)'') else [])
                       @ [CHR 0x0A] @ ''Would you like to know more about a specific ticket? Just mention the ticket number!'',
                     action = Some ''ticket_status'', ticket = None,
                     tickets = Some (map summaryOf found), conversationContext = None \<rparr>,
                 errorMessage = None \<rparr>, w)"
    unfolding handler_status[OF assms(1-6)] reply formatTicketStatus_list[OF ne le]
      summaryEntries_numbered
    by (simp add: jsonOk_def initialResponse_def summaryEntry_def truncationNote_def
          followUpPrompt_def)
  with found(2-5) show ?thesis by blast
qed


text \<open>
  Claim C4 says that a status inquiry that names no specific ticket number lists the
  user's tickets, newest first and capped at 10 with the truncation note. The list view
  above does so whenever \<^verbatim>\<open>extractTicketNumber\<close> returns null. But its loose pattern
  \<^verbatim>\<open>/(?:ticket|#)\s*([A-Z0-9-]+)/i\<close>, which the source comments as "just mentioning a ticket
  number after ticket or #", also captures the letters that follow the word "ticket"
  inside the trigger phrases of \<^verbatim>\<open>detectTicketStatusInquiry\<close> themselves. For the
  utterance "my tickets", which names no ticket number, a user with 12 tickets gets no
  list: the number read is "S", the query is filtered to it, and the reply is the
  not-found text with action null, the text that itself advises to "ask me to show all
  your tickets". The same user with the same tickets gets the list of 10 for
  "show ticket".
\<close>

theorem status_inquiry_my_tickets_not_listed:
  \<open>length (filter (\<lambda>t. createdBy t = ''u1'')
       (map (\<lambda>n. \<lparr> title = ''Request'', description = ''A request'',
                      category = ''General Inquiry'', priority = ''Normal'',
                      requestDetails = \<lparr> numberOfCopies = None, purpose = None,
                                         subjectCode = None, subjectName = None \<rparr>,
                      createdBy = ''u1'', status = ''Pending'', ticketId = showNat n,
                      ticketNumber = ''TICKET-'' @ showNat n, createdAt = n,
                      assignedTo = None, resolution = None \<rparr>) [1..<13])) = 12
   \<and> detectTicketStatusInquiry (trim (toLowerCase ''my tickets''))
   \<and> extractTicketNumber ''my tickets'' = Some ''S''
   \<and> handler
         \<lparr> hour = 9, save = (\<lambda>d. SaveError), populateFails = False,
                 findFails = False, openaiApiKey = None, completion = (\<lambda>p m. None),
                 toLocaleDateString = (\<lambda>t y. ''Jan 1'') \<rparr>
         \<lparr> faqData = [], departmentData = [],
            ticketStore =
              map (\<lambda>n. \<lparr> title = ''Request'', description = ''A request'',
                      category = ''General Inquiry'', priority = ''Normal'',
                      requestDetails = \<lparr> numberOfCopies = None, purpose = None,
                                         subjectCode = None, subjectName = None \<rparr>,
                      createdBy = ''u1'', status = ''Pending'', ticketId = showNat n,
                      ticketNumber = ''TICKET-'' @ showNat n, createdAt = n,
                      assignedTo = None, resolution = None \<rparr>) [1..<13] \<rparr>
         \<lparr> body_message = ''my tickets'', body_userIdValid = True,
           body_conversationContext = None, user_id = ''u1'' \<rparr>
       = (\<lparr> httpStatus = 200, success = True,
            data = Some
              \<lparr> responseText = ''I couldn't find a ticket with number #S in your account. Please check the ticket number and try again, or ask me to show all your tickets.'',
                action = None, ticket = None, tickets = None, conversationContext = None \<rparr>,
            errorMessage = None \<rparr>,
          \<lparr> faqData = [], departmentData = [],
            ticketStore =
              map (\<lambda>n. \<lparr> title = ''Request'', description = ''A request'',
                      category = ''General Inquiry'', priority = ''Normal'',
                      requestDetails = \<lparr> numberOfCopies = None, purpose = None,
                                         subjectCode = None, subjectName = None \<rparr>,
                      createdBy = ''u1'', status = ''Pending'', ticketId = showNat n,
                      ticketNumber = ''TICKET-'' @ showNat n, createdAt = n,
                      assignedTo = None, resolution = None \<rparr>) [1..<13] \<rparr>)
   \<and> map_option (\<lambda>r. (action r, map_option length (tickets r)))
         (data (fst (handler
           \<lparr> hour = 9, save = (\<lambda>d. SaveError), populateFails = False,
                 findFails = False, openaiApiKey = None, completion = (\<lambda>p m. None),
                 toLocaleDateString = (\<lambda>t y. ''Jan 1'') \<rparr>
           \<lparr> faqData = [], departmentData = [],
            ticketStore =
              map (\<lambda>n. \<lparr> title = ''Request'', description = ''A request'',
                      category = ''General Inquiry'', priority = ''Normal'',
                      requestDetails = \<lparr> numberOfCopies = None, purpose = None,
                                         subjectCode = None, subjectName = None \<rparr>,
                      createdBy = ''u1'', status = ''Pending'', ticketId = showNat n,
                      ticketNumber = ''TICKET-'' @ showNat n, createdAt = n,
                      assignedTo = None, resolution = None \<rparr>) [1..<13] \<rparr>
           \<lparr> body_message = ''show ticket'', body_userIdValid = True,
             body_conversationContext = None, user_id = ''u1'' \<rparr>)))
       = Some (Some ''ticket_status'', Some 10)\<close>
proof -
  let ?mk = "\<lambda>n. \<lparr> title = ''Request'', description = ''A request'',
                      category = ''General Inquiry'', priority = ''Normal'',
                      requestDetails = \<lparr> numberOfCopies = None, purpose = None,
                                         subjectCode = None, subjectName = None \<rparr>,
                      createdBy = ''u1'', status = ''Pending'', ticketId = showNat n,
                      ticketNumber = ''TICKET-'' @ showNat n, createdAt = n,
                      assignedTo = None, resolution = None \<rparr>"
  let ?e = "\<lparr> hour = 9, save = (\<lambda>d. SaveError), populateFails = False,
                 findFails = False, openaiApiKey = None, completion = (\<lambda>p m. None),
                 toLocaleDateString = (\<lambda>t y. ''Jan 1'') \<rparr>"
  let ?w = "\<lparr> faqData = [], departmentData = [], ticketStore = map ?mk [1..<13] \<rparr>"
  let ?my = "\<lparr> body_message = ''my tickets'', body_userIdValid = True,
       body_conversationContext = None, user_id = ''u1'' \<rparr>"
  let ?show = "\<lparr> body_message = ''show ticket'', body_userIdValid = True,
       body_conversationContext = None, user_id = ''u1'' \<rparr>"
  have mine: "filter (\<lambda>t. createdBy t = ''u1'') (map ?mk [1..<13]) = map ?mk [1..<13]"
    by (simp add: filter_map comp_def)
  have len: "length (filter (\<lambda>t. createdBy t = ''u1'') (map ?mk [1..<13])) = 12"
    unfolding mine by simp
  have ne: "filter (\<lambda>t. createdBy t = ''u1'') (map ?mk [1..<13]) \<noteq> []"
    using len by (metis list.size(3) zero_neq_numeral)
  have none_S: "filter (\<lambda>t. createdBy t = ''u1'' \<and> ticketNumber t = ''S'') (map ?mk [1..<13]) = []"
    by (simp add: filter_map comp_def)
  have faq: "\<not> truthy (matchFAQ [] m)" for m
    by (simp add: matchFAQ_def truthy_def)
  have dept: "findDepartmentByService [] m = None" for m
    by (simp add: findDepartmentByService_def)
  have my: \<open>handler ?e ?w ?my =
       (\<lparr> httpStatus = 200, success = True,
            data = Some
              \<lparr> responseText = ''I couldn't find a ticket with number #S in your account. Please check the ticket number and try again, or ask me to show all your tickets.'',
                action = None, ticket = None, tickets = None, conversationContext = None \<rparr>,
            errorMessage = None \<rparr>, ?w)\<close>
    using my_tickets_not_found[of ?my ?w ?e] none_S
    by (simp add: faq jsonOk_def initialResponse_def)
  have valid_show: "validRequest ?show" by (simp add: validRequest_def show_ticket_facts)
  from status_list_view[of ?show ?w ?e] valid_show ne
  obtain found where found:
    "fst (handler ?e ?w ?show) =
       \<lparr> httpStatus = 200, success = True,
         data = Some
           \<lparr> responseText =
               ''I found '' @ showNat (length found) @ '' ticket''
               @ (if length found > 1 then ''s'' else [])
               @ '' in your account:'' @ [CHR 0x0A, CHR 0x0A]
               @ concat (map (\<lambda>i.
                            showNat (i + 1) @ ''. '' @ statusEmoji (status (found ! i))
                            @ '' **#'' @ ticketNumber (found ! i) @ ''** - ''
                            @ title (found ! i) @ [CHR 0x0A]
                            @ ''   Status: '' @ status (found ! i)
                            @ '' | Priority: '' @ priority (found ! i) @ '' | ''
                            @ toLocaleDateString ?e (createdAt (found ! i)) False
                            @ [CHR 0x0A, CHR 0x0A])
                          [0..<length found])
               @ (if length found = 10 then ([CHR 0x0A] @ ''(Showing most recent 10 tickets. View all tickets in the Tickets section.)'') else [])
               @ [CHR 0x0A] @ ''Would you like to know more about a specific ticket? Just mention the ticket number!'',
             action = Some ''ticket_status'', ticket = None,
             tickets = Some (map summaryOf found), conversationContext = None \<rparr>,
         errorMessage = None \<rparr>"
    "length found =
       min 10 (length (filter (\<lambda>t. createdBy t = ''u1'') (map ?mk [1..<13])))"
    by (auto simp: show_ticket_facts faq dept)
  have l10: "length found = 10" using found(2) unfolding len by simp
  have shown: "map_option (\<lambda>r. (action r, map_option length (tickets r)))
         (data (fst (handler ?e ?w ?show))) = Some (Some ''ticket_status'', Some 10)"
    unfolding found(1) by (simp add: l10)
  show ?thesis
    using len my shown by (simp add: my_tickets_facts)
qed

text \<open>
  Claim C5. For the utterance "my tickets" the loose pattern reads the "s" after
  "ticket" as a ticket number, so the extracted number is "S". When no FAQ entry answers
  the utterance and the query succeeds, the reply is the text that no ticket with number
  #S was found, with action null and no ticket list, whatever tickets the user has, as
  long as none of them is numbered "S".
\<close>

theorem my_tickets_read_as_ticket_S:
  assumes "body_message req = ''my tickets''"
    and "body_userIdValid req"
    and "\<not> truthy (matchFAQ (faqData w) ''my tickets'')"
    and "\<not> findFails e"
    and "filter (\<lambda>t. createdBy t = user_id req \<and> ticketNumber t = ''S'') (ticketStore w) = []"
  shows \<open>extractTicketNumber ''my tickets'' = Some ''S''
         \<and> handler e w req =
             (\<lparr> httpStatus = 200, success = True,
                 data = Some
                   \<lparr> responseText = ''I couldn't find a ticket with number #S in your account. Please check the ticket number and try again, or ask me to show all your tickets.'',
                     action = None, ticket = None, tickets = None,
                     conversationContext = None \<rparr>,
                 errorMessage = None \<rparr>, w)\<close>
proof -
  have valid: "validRequest req"
    using assms(2) by (simp add: validRequest_def assms(1) my_tickets_facts)
  have dept: "findDepartmentByService (departmentData w) (trim (body_message req)) = None"
    unfolding assms(1) my_tickets_facts(1)
    using my_tickets_facts(7) by (rule findDepartmentByService_no_cue)
  have found: "getUserTickets e (ticketStore w) (user_id req) (Some ''S'') = Some []"
    using assms(4,5) by (simp add: getUserTickets_def truthy_def)
  have reply: \<open>statusReply e w (user_id req) ''my tickets'' =
      initialResponse \<lparr> responseText := ''I couldn't find a ticket with number #S in your account. Please check the ticket number and try again, or ask me to show all your tickets.'' \<rparr>\<close>
    by (simp add: statusReply_def Let_def my_tickets_facts(6) found truthy_def showOpt_def)
  have "handler e w req = (jsonOk (statusReply e w (user_id req) (trim (body_message req))), w)"
    using valid dept assms(3)
    by (intro handler_status) (simp_all add: assms(1) my_tickets_facts)
  then show ?thesis
    by (simp add: assms(1) my_tickets_facts reply jsonOk_def initialResponse_def)
qed

theorem my_tickets_read_as_ticket_S_witness:
  \<open>\<not> truthy (matchFAQ [\<lparr> question = ''How much is the tuition?'', faq_keywords = [''tuition''],
                           answer = ''See the cashier.'' \<rparr>] ''my tickets'')
   \<and> filter (\<lambda>t. createdBy t = ''u1'' \<and> ticketNumber t = ''S'')
        [\<lparr> title = ''Transcript request'', description = ''I need my transcript'',
           category = ''OTR Request'', priority = ''Normal'',
           requestDetails = \<lparr> numberOfCopies = Some 1, purpose = None,
                              subjectCode = None, subjectName = None \<rparr>,
           createdBy = ''u1'', status = ''Pending'', ticketId = ''id1'',
           ticketNumber = ''TICKET-20240101-ABC'', createdAt = 5,
           assignedTo = None, resolution = None \<rparr>] = []
   \<and> handler \<lparr> hour = 9, save = (\<lambda>d. SaveError), populateFails = False,
               findFails = False, openaiApiKey = None, completion = (\<lambda>p m. None),
               toLocaleDateString = (\<lambda>t y. ''Jan 1'') \<rparr>
        \<lparr> faqData = [\<lparr> question = ''How much is the tuition?'', faq_keywords = [''tuition''],
                       answer = ''See the cashier.'' \<rparr>],
          departmentData = [],
          ticketStore =
            [\<lparr> title = ''Transcript request'', description = ''I need my transcript'',
               category = ''OTR Request'', priority = ''Normal'',
               requestDetails = \<lparr> numberOfCopies = Some 1, purpose = None,
                                  subjectCode = None, subjectName = None \<rparr>,
               createdBy = ''u1'', status = ''Pending'', ticketId = ''id1'',
               ticketNumber = ''TICKET-20240101-ABC'', createdAt = 5,
               assignedTo = None, resolution = None \<rparr>] \<rparr>
        \<lparr> body_message = ''my tickets'', body_userIdValid = True,
          body_conversationContext = None, user_id = ''u1'' \<rparr>
      = (\<lparr> httpStatus = 200, success = True,
           data = Some
             \<lparr> responseText = ''I couldn't find a ticket with number #S in your account. Please check the ticket number and try again, or ask me to show all your tickets.'',
               action = None, ticket = None, tickets = None, conversationContext = None \<rparr>,
           errorMessage = None \<rparr>,
         \<lparr> faqData = [\<lparr> question = ''How much is the tuition?'', faq_keywords = [''tuition''],
                       answer = ''See the cashier.'' \<rparr>],
          departmentData = [],
          ticketStore =
            [\<lparr> title = ''Transcript request'', description = ''I need my transcript'',
               category = ''OTR Request'', priority = ''Normal'',
               requestDetails = \<lparr> numberOfCopies = Some 1, purpose = None,
                                  subjectCode = None, subjectName = None \<rparr>,
               createdBy = ''u1'', status = ''Pending'', ticketId = ''id1'',
               ticketNumber = ''TICKET-20240101-ABC'', createdAt = 5,
               assignedTo = None, resolution = None \<rparr>] \<rparr>)\<close>
proof -
  have faq: "matchFAQ [\<lparr> question = ''How much is the tuition?'', faq_keywords = [''tuition''],
                           answer = ''See the cashier.'' \<rparr>] ''my tickets'' = None"
    by code_simp
  show ?thesis
    using my_tickets_read_as_ticket_S[of
        "\<lparr> body_message = ''my tickets'', body_userIdValid = True,
          body_conversationContext = None, user_id = ''u1'' \<rparr>"
        "\<lparr> faqData = [\<lparr> question = ''How much is the tuition?'', faq_keywords = [''tuition''],
                       answer = ''See the cashier.'' \<rparr>],
          departmentData = [],
          ticketStore =
            [\<lparr> title = ''Transcript request'', description = ''I need my transcript'',
               category = ''OTR Request'', priority = ''Normal'',
               requestDetails = \<lparr> numberOfCopies = Some 1, purpose = None,
                                  subjectCode = None, subjectName = None \<rparr>,
               createdBy = ''u1'', status = ''Pending'', ticketId = ''id1'',
               ticketNumber = ''TICKET-20240101-ABC'', createdAt = 5,
               assignedTo = None, resolution = None \<rparr>] \<rparr>"
        "\<lparr> hour = 9, save = (\<lambda>d. SaveError), populateFails = False,
               findFails = False, openaiApiKey = None, completion = (\<lambda>p m. None),
               toLocaleDateString = (\<lambda>t y. ''Jan 1'') \<rparr>"]
    by (simp add: faq truthy_def)
qed

end
